theory Spec2Isabelle
  imports Complex_Main "HOL-Library.Word" "HOL-Library.Sublist"
begin

section \<open>JavaScript values the program handles\<close>

text \<open>
  Strings are lists of code units below 256 (\<open>string\<close>); a value that may be
  \<open>undefined\<close> or \<open>null\<close> is an \<open>option\<close>. A \<open>throw\<close> (or a rejected
  promise under \<open>await\<close>) is the left summand of a result \<open>js_value + 'a\<close>.
  Writes to the console are not modelled.
\<close>

datatype js_value =
    Error string          \<comment> \<open>\<open>new Error(message)\<close>\<close>
  | TypeError string      \<comment> \<open>raised by the engine on a property read of \<open>undefined\<close>\<close>
  | DOMException string   \<comment> \<open>raised by the browser (\<open>atob\<close>, \<open>localStorage.setItem\<close>)\<close>
  | NonError string       \<comment> \<open>any thrown value that is not an \<open>Error\<close> instance\<close>

fun instanceof_Error :: "js_value \<Rightarrow> bool" where
  "instanceof_Error (Error m) = True"
| "instanceof_Error (TypeError m) = True"
| "instanceof_Error (DOMException m) = True"
| "instanceof_Error (NonError v) = False"

text \<open>The \<open>message\<close> property; a thrown value that is no \<open>Error\<close> has none.\<close>

fun message :: "js_value \<Rightarrow> string option" where
  "message (Error m) = Some m"
| "message (TypeError m) = Some m"
| "message (DOMException m) = Some m"
| "message (NonError v) = None"

text \<open>Truthiness of a possibly missing string: present and not empty.\<close>

fun truthy :: "string option \<Rightarrow> bool" where
  "truthy None = False"
| "truthy (Some s) = (s \<noteq> [])"

text \<open>A possibly missing string inside a template literal.\<close>

fun interpolate :: "string option \<Rightarrow> string" where
  "interpolate None = ''undefined''"
| "interpolate (Some s) = s"

text \<open>\<open>a || b\<close> on possibly missing strings.\<close>

definition js_or :: "string option \<Rightarrow> string option \<Rightarrow> string option" where
  "js_or a b = (if truthy a then a else b)"

text \<open>The engine's message for calling a method on \<open>undefined\<close>.\<close>

definition cannot_read :: "string \<Rightarrow> js_value" where
  "cannot_read prop =
     TypeError (''Cannot read properties of undefined (reading '' @ [CHR 0x27] @ prop @ [CHR 0x27] @ '')'')"

definition is_white_space :: "char \<Rightarrow> bool" where
  "is_white_space c = (c \<in> set [CHR 0x09, CHR 0x0A, CHR 0x0B, CHR 0x0C, CHR 0x0D, CHR 0x20, CHR 0xA0])"

definition trim :: "string \<Rightarrow> string" where
  "trim s = rev (dropWhile is_white_space (rev (dropWhile is_white_space s)))"

text \<open>\<open>s.split(c)\<close> for a one-character separator.\<close>

fun split :: "char \<Rightarrow> string \<Rightarrow> string list" where
  "split c [] = [[]]"
| "split c (x # xs) =
     (if x = c then [] # split c xs
      else (case split c xs of [] \<Rightarrow> [[x]] | w # ws \<Rightarrow> (x # w) # ws))"

section \<open>Data URLs\<close>

text \<open>
  \<open>arr[0].match(/:(.*?);/)\<close>: the first colon from which a semicolon is reached
  without crossing a line terminator; the group is the text in between, up to the first
  semicolon. \<open>None\<close> is a failed match.
\<close>

fun lazy_until_semicolon :: "string \<Rightarrow> string option" where
  "lazy_until_semicolon [] = None"
| "lazy_until_semicolon (c # cs) =
     (if c = CHR '';'' then Some []
      else if c = CHR 0x0A \<or> c = CHR 0x0D then None
      else map_option ((#) c) (lazy_until_semicolon cs))"

fun mimeMatch :: "string \<Rightarrow> string option" where
  "mimeMatch [] = None"
| "mimeMatch (c # cs) =
     (if c = CHR '':'' then
        (case lazy_until_semicolon cs of Some g \<Rightarrow> Some g | None \<Rightarrow> mimeMatch cs)
      else mimeMatch cs)"

type_synonym uint8 = "8 word"

record js_file =
  file_bytes :: "uint8 list"
  file_name :: string
  file_type :: string

text \<open>
  \<open>new File(bits, name, { type })\<close> does not keep the type as it is given: the
  browser puts it in ASCII lower case, and keeps the empty string in its place when it
  has a character outside U+0020 to U+007E.
\<close>

definition ascii_upper :: "char \<Rightarrow> bool" where
  "ascii_upper c = (65 \<le> (of_char c :: nat) \<and> (of_char c :: nat) \<le> 90)"

definition ascii_lowercase :: "char \<Rightarrow> char" where
  "ascii_lowercase c = (if ascii_upper c then char_of ((of_char c :: nat) + 32) else c)"

definition in_type_range :: "char \<Rightarrow> bool" where
  "in_type_range c = (32 \<le> (of_char c :: nat) \<and> (of_char c :: nat) \<le> 126)"

definition File_type :: "string \<Rightarrow> string" where
  "File_type t = (if list_all in_type_range t then map ascii_lowercase t else [])"

text \<open>
  The loop \<open>while(n--){ u8arr[n] = bstr.charCodeAt(n); }\<close>, counting \<open>n\<close> down
  from the length of the decoded string.
\<close>

fun fill_u8arr :: "nat \<Rightarrow> string \<Rightarrow> uint8 list \<Rightarrow> uint8 list" where
  "fill_u8arr 0 bstr u8arr = u8arr"
| "fill_u8arr (Suc n) bstr u8arr = fill_u8arr n bstr (u8arr[n := of_char (bstr ! n)])"

text \<open>
  \<open>dataURLtoFile\<close> of the application. The browser's \<open>atob\<close> is a parameter: it
  returns the decoded binary string, or \<open>None\<close> where it throws.
\<close>

definition dataURLtoFile :: "(string \<Rightarrow> string option) \<Rightarrow> string \<Rightarrow> string \<Rightarrow> js_value + js_file" where
  "dataURLtoFile atob dataurl filename =
     (let arr = split CHR '','' dataurl in
      if length arr < 2 then Inl (Error ''Invalid data URL'')
      else (case mimeMatch (arr ! 0) of
              None \<Rightarrow> Inl (Error ''Could not parse MIME type from data URL'')
            | Some mime \<Rightarrow>
                if mime = [] then Inl (Error ''Could not parse MIME type from data URL'')
                else (case atob (arr ! 1) of
                        None \<Rightarrow> Inl (DOMException ''InvalidCharacterError'')
                      | Some bstr \<Rightarrow>
                          (let n = length bstr;
                               u8arr = fill_u8arr n bstr (replicate n 0)
                           in Inr \<lparr>file_bytes = u8arr, file_name = filename,
                                  file_type = File_type mime\<rparr>))))"

text \<open>
  \<open>fileToPart\<close> of the service layer. The outcome of \<open>FileReader.readAsDataURL\<close>
  is a parameter: the data URL, or the value the reader rejects with.
\<close>

record inline_data =
  mimeType :: "string option"
  data :: "string option"

definition parse_data_url :: "string \<Rightarrow> js_value + inline_data" where
  "parse_data_url dataUrl =
     (let arr = split CHR '','' dataUrl in
      if length arr < 2 then Inl (Error ''Invalid data URL'')
      else (case mimeMatch (arr ! 0) of
              None \<Rightarrow> Inl (Error ''Could not parse MIME type from data URL'')
            | Some m \<Rightarrow>
                if m = [] then Inl (Error ''Could not parse MIME type from data URL'')
                else Inr \<lparr>mimeType = Some m, data = Some (arr ! 1)\<rparr>))"

definition fileToPart :: "js_value + string \<Rightarrow> js_value + inline_data" where
  "fileToPart read = (case read of Inl e \<Rightarrow> Inl e | Inr dataUrl \<Rightarrow> parse_data_url dataUrl)"

section \<open>The hosted API\<close>

text \<open>
  The responses of the SDK, with every optional property an \<open>option\<close>.
\<close>

record part =
  part_inlineData :: "inline_data option"
  part_text :: "string option"

record content =
  content_parts :: "part list option"

record web =
  web_uri :: "string option"
  web_title :: "string option"

record grounding_chunk =
  chunk_web :: "web option"

record grounding_metadata =
  groundingChunks :: "grounding_chunk list option"

record candidate =
  cand_content :: "content option"
  finishReason :: "string option"
  groundingMetadata :: "grounding_metadata option"

record prompt_feedback =
  blockReason :: "string option"
  blockReasonMessage :: "string option"

record response =
  promptFeedback :: "prompt_feedback option"
  candidates :: "candidate list option"
  response_text :: "string option"

record image =
  imageBytes :: "string option"
  image_mimeType :: "string option"

record generated_image =
  gen_image :: "image option"

record images_response =
  generatedImages :: "generated_image list option"

text \<open>The requests the service layer sends.\<close>

record images_request =
  images_model :: string
  images_prompt :: string
  numberOfImages :: nat
  outputMimeType :: string
  aspectRatio :: string

datatype request_part = ImagePart inline_data | TextPart string

datatype modality = IMAGE | TEXT

record content_request =
  content_model :: string
  request_parts :: "request_part list"
  responseModalities :: "modality list option"
  googleSearch :: bool

record history_entry =
  role :: string
  entry_parts :: "string list"

record chat_request =
  chat_model :: string
  systemInstruction :: string
  chat_history :: "history_entry list"
  chat_message :: string

text \<open>
  The hosted API is a parameter of every service function: what each endpoint answers
  to a request, or the value it rejects with.
\<close>

record genai =
  models_generateImages :: "images_request \<Rightarrow> js_value + images_response"
  models_generateContent :: "content_request \<Rightarrow> js_value + response"
  chats_sendMessage :: "chat_request \<Rightarrow> js_value + response"

text \<open>\<open>response.candidates?.[0]\<close>\<close>

definition first_candidate :: "response \<Rightarrow> candidate option" where
  "first_candidate response =
     (case candidates response of None \<Rightarrow> None | Some [] \<Rightarrow> None | Some (c # cs) \<Rightarrow> Some c)"

section \<open>The service layer\<close>

definition imagePartFromResponse :: "response \<Rightarrow> part option" where
  "imagePartFromResponse response =
     Option.bind (Option.bind (Option.bind (first_candidate response) cand_content) content_parts)
       (List.find (\<lambda>p. part_inlineData p \<noteq> None))"

definition handleImageEditApiResponse :: "response \<Rightarrow> string \<Rightarrow> js_value + string" where
  "handleImageEditApiResponse response context =
     (if truthy (Option.bind (promptFeedback response) blockReason) then
        Inl (Error (''Request was blocked. Reason: ''
                    @ interpolate (Option.bind (promptFeedback response) blockReason) @ ''. ''
                    @ (if truthy (Option.bind (promptFeedback response) blockReasonMessage)
                       then interpolate (Option.bind (promptFeedback response) blockReasonMessage)
                       else '''')))
      else
        (case Option.bind (imagePartFromResponse response) part_inlineData of
           Some d \<Rightarrow> Inr (''data:'' @ interpolate (mimeType d) @ '';base64,'' @ interpolate (data d))
         | None \<Rightarrow>
             (let reason = Option.bind (first_candidate response) finishReason in
              if truthy reason \<and> reason \<noteq> Some ''STOP'' then
                Inl (Error (''Image generation for '' @ context
                            @ '' stopped unexpectedly. Reason: '' @ interpolate reason
                            @ ''. This often relates to safety settings.''))
              else
                (let textFeedback = map_option trim (response_text response) in
                 Inl (Error (''The AI model did not return an image for the '' @ context @ ''. ''
                             @ (if truthy textFeedback
                                then ''Feedback: \"'' @ interpolate textFeedback @ ''\"''
                                else ''No additional feedback was provided.'')))))))"

text \<open>
  \<open>generatedImages.map(img => ...)\<close>: the data URI of every image; reading a property
  of a missing \<open>img.image\<close> throws, \<open>prop\<close> being the property read first.
\<close>

fun image_data_uris :: "string \<Rightarrow> generated_image list \<Rightarrow> js_value + string list" where
  "image_data_uris prop [] = Inr []"
| "image_data_uris prop (img # imgs) =
     (case gen_image img of
        None \<Rightarrow> Inl (cannot_read prop)
      | Some im \<Rightarrow>
          (case image_data_uris prop imgs of
             Inl e \<Rightarrow> Inl e
           | Inr uris \<Rightarrow>
               Inr ((''data:'' @ interpolate (image_mimeType im) @ '';base64,''
                     @ interpolate (imageBytes im)) # uris)))"

definition designPrompt :: "string \<Rightarrow> string option \<Rightarrow> string" where
  "designPrompt prompt stylePrompt =
     ''\<newline>'' @
     ''      Generate a high-quality, professional tattoo design based on the following concept: \"'' @
     prompt @
     ''\".\<newline>'' @
     ''\<newline>'' @
     ''      **Style Guidance:**\<newline>'' @
     ''      - The output must be a clean piece of artwork, suitable for a tattoo flash sheet.\<newline>'' @
     ''      - Render the design primarily in black ink on a solid, pure white background (#FFFFFF).\<newline>'' @
     ''      - Emphasize clear, sharp linework and well-defined shapes. Avoid overly sketchy or blurry styles.\<newline>'' @
     ''      - '' @
     (if truthy stylePrompt
      then ''Incorporate the following artistic style: \"'' @ interpolate stylePrompt @ ''\".''
      else ''Use a versatile, modern illustration style.'') @
     ''\<newline>'' @
     ''\<newline>'' @
     ''      **Negative Constraints (What to AVOID):**\<newline>'' @
     ''      - Do NOT show the tattoo on any skin or body part.\<newline>'' @
     ''      - Do NOT include any background elements, textures, or colors. The background must be pure white.\<newline>'' @
     ''      - Do NOT depict hands, tattoo machines, or any other real-world objects. The image should only contain the artwork itself.\<newline>'' @
     ''      - Do NOT generate a photograph of an existing tattoo. This is a design concept.\<newline>'' @
     ''\<newline>'' @
     ''      The final image should be centered and ready for an artist to use as a stencil.\<newline>'' @
     ''    ''"

definition generateTattooDesign :: "genai \<Rightarrow> string \<Rightarrow> string option \<Rightarrow> js_value + string list" where
  "generateTattooDesign ai prompt stylePrompt =
     (let attempt =
        (case models_generateImages ai
                \<lparr>images_model = ''imagen-4.0-generate-001'',
                 images_prompt = designPrompt prompt stylePrompt,
                 numberOfImages = 4, outputMimeType = ''image/png'', aspectRatio = ''1:1''\<rparr> of
           Inl e \<Rightarrow> Inl e
         | Inr response \<Rightarrow>
             (case generatedImages response of
                None \<Rightarrow> Inl (Error ''The AI did not return any images.'')
              | Some imgs \<Rightarrow>
                  if length imgs = 0 then Inl (Error ''The AI did not return any images.'')
                  else image_data_uris ''imageBytes'' imgs))
      in case attempt of
           Inr uris \<Rightarrow> Inr uris
         | Inl error \<Rightarrow>
             if instanceof_Error error then
               Inl (Error (''Failed to generate tattoo designs. '' @ interpolate (message error)))
             else Inl (Error ''An unknown error occurred while generating tattoo designs.''))"

definition referencePrompt :: "string \<Rightarrow> string" where
  "referencePrompt prompt =
     ''High-quality, artistic reference image for inspiration: '' @
     prompt @
     ''.''"

definition searchReferenceImages :: "genai \<Rightarrow> string \<Rightarrow> js_value + string list" where
  "searchReferenceImages ai prompt =
     (let attempt =
        (case models_generateImages ai
                \<lparr>images_model = ''imagen-4.0-generate-001'',
                 images_prompt = referencePrompt prompt,
                 numberOfImages = 4, outputMimeType = ''image/jpeg'', aspectRatio = ''1:1''\<rparr> of
           Inl e \<Rightarrow> Inl e
         | Inr response \<Rightarrow>
             (case generatedImages response of
                None \<Rightarrow> Inl (Error ''The AI did not return any reference images.'')
              | Some imgs \<Rightarrow>
                  if length imgs = 0 then Inl (Error ''The AI did not return any reference images.'')
                  else image_data_uris ''mimeType'' imgs))
      in case attempt of
           Inr uris \<Rightarrow> Inr uris
         | Inl error \<Rightarrow>
             Inl (Error (''Failed to find reference images. ''
                         @ (if instanceof_Error error then interpolate (message error) else ''''))))"

definition describePrompt :: "string" where
  "describePrompt =
     ''You are an art critic. Concisely describe the artistic style of this image in a way that can be used as a prompt for another AI image generator. Focus on style, mood, and technique (e.g., \"fine-line illustration\", \"bold traditional with heavy blacks\", \"ethereal watercolor style with soft gradients\"). Do not describe the subject matter. Give me only the style description.''"

text \<open>
  A service function that is given a \<open>File\<close> takes the outcome of reading that file
  (see \<open>fileToPart\<close>). An optional image is readable when it is absent or
  \<open>fileToPart\<close> returns its part.
\<close>

definition readable :: "(js_value + string) option \<Rightarrow> bool" where
  "readable file =
     (case file of
        None \<Rightarrow> True
      | Some read \<Rightarrow> (case fileToPart read of Inl e \<Rightarrow> False | Inr p \<Rightarrow> True))"

definition describeImageStyle :: "genai \<Rightarrow> js_value + string \<Rightarrow> js_value + string" where
  "describeImageStyle ai image' =
     (case fileToPart image' of
        Inl e \<Rightarrow> Inl e
      | Inr imagePart \<Rightarrow>
          (case models_generateContent ai
                  \<lparr>content_model = ''gemini-2.5-flash'',
                   request_parts = [ImagePart imagePart, TextPart describePrompt],
                   responseModalities = None, googleSearch = False\<rparr> of
             Inl e \<Rightarrow> Inl e
           | Inr response \<Rightarrow>
               (case response_text response of
                  None \<Rightarrow> Inl (cannot_read ''trim'')
                | Some t \<Rightarrow> Inr (trim t))))"

definition blendPrompt :: "string" where
  "blendPrompt =
     ''\<newline>'' @
     ''        **Persona:** You are an expert digital artist specializing in photorealistic virtual tattoo application.\<newline>'' @
     ''\<newline>'' @
     ''        **Task:** The user has already placed a tattoo design onto their photo. Your task is to seamlessly and realistically blend the tattoo layer with the user's skin in the underlying photo layer.\<newline>'' @
     ''\<newline>'' @
     ''        **Technical Instructions:**\<newline>'' @
     ''        1.  **Contour Mapping:** The tattoo must wrap perfectly around the natural curves and contours of the body it has been placed on. It should not look flat or like a sticker.\<newline>'' @
     ''        2.  **Lighting and Shadow:** Precisely match the lighting of the tattoo to the ambient lighting in the user's photo. Accurately replicate existing shadows and highlights on the skin over the tattoo.\<newline>'' @
     ''        3.  **Skin Texture Blending:** Integrate the tattoo with the underlying skin texture. The skin's pores and fine lines should be subtly visible through the ink. Apply a slight translucency to the ink to mimic it being under the top layer of skin.\<newline>'' @
     ''        4.  **Color Integrity:** Maintain the original colors and details of the tattoo design, only adjusting them for lighting and blending.\<newline>'' @
     ''        \<newline>'' @
     ''        **Constraints:**\<newline>'' @
     ''        - Do not modify any part of the user's photo except for blending the tattoo.\<newline>'' @
     ''        - Do not change the position, size, or rotation of the tattoo.\<newline>'' @
     ''        - Do not add any text, watermarks, or other artifacts.\<newline>'' @
     ''        - The final output must be ONLY the edited photograph.\<newline>'' @
     ''    ''"

definition blendVirtualTattoo :: "genai \<Rightarrow> js_value + string \<Rightarrow> js_value + string" where
  "blendVirtualTattoo ai composedImage =
     (case fileToPart composedImage of
        Inl e \<Rightarrow> Inl e
      | Inr composedImagePart \<Rightarrow>
          (case models_generateContent ai
                  \<lparr>content_model = ''gemini-2.5-flash-image-preview'',
                   request_parts = [ImagePart composedImagePart, TextPart blendPrompt],
                   responseModalities = Some [IMAGE, TEXT], googleSearch = False\<rparr> of
             Inl e \<Rightarrow> Inl e
           | Inr response \<Rightarrow> handleImageEditApiResponse response ''virtual tattoo blending''))"

definition stencilPrompt :: "string" where
  "stencilPrompt =
     ''\<newline>'' @
     ''        You are a professional tattoo artist's assistant. Your task is to convert the provided full-color tattoo design into a clean, precise black-and-white stencil or outline.\<newline>'' @
     ''\<newline>'' @
     ''        **Instructions:**\<newline>'' @
     ''        1.  **Extract Linework:** Trace all the essential lines of the design. The output should be only the linework.\<newline>'' @
     ''        2.  **Remove Shading & Color:** Eliminate all color, shading, gradients, and textures.\<newline>'' @
     ''        3.  **Output Style:** The result must be sharp, high-contrast black lines on a solid, pure white background.\<newline>'' @
     ''        4.  **Preserve Detail:** Maintain the integrity and all important details of the original design.\<newline>'' @
     ''        \<newline>'' @
     ''        The final output must be ONLY the generated stencil image, suitable for a tattoo artist to use for transfer. Do not add any other elements.\<newline>'' @
     ''    ''"

definition generateTattooStencil :: "genai \<Rightarrow> js_value + string \<Rightarrow> js_value + string" where
  "generateTattooStencil ai image' =
     (case fileToPart image' of
        Inl e \<Rightarrow> Inl e
      | Inr imagePart \<Rightarrow>
          (case models_generateContent ai
                  \<lparr>content_model = ''gemini-2.5-flash-image-preview'',
                   request_parts = [ImagePart imagePart, TextPart stencilPrompt],
                   responseModalities = Some [IMAGE, TEXT], googleSearch = False\<rparr> of
             Inl e \<Rightarrow> Inl e
           | Inr response \<Rightarrow> handleImageEditApiResponse response ''tattoo stencil generation''))"

text \<open>
  An artist. Only \<open>name\<close> is certain to be there: the search result is an unchecked
  cast of parsed JSON, and the application itself builds \<open>{ name: 'Unassigned' }\<close>.
\<close>

record artist =
  artist_name :: string
  description :: "string option"
  address :: "string option"
  website :: "string option"
  specialties :: "string list option"
  availability :: "string option"
  portfolioUrl :: "string option"
  portfolio :: "string list option"
  latitude :: "real option"
  longitude :: "real option"
  styleMatch :: "bool option"

text \<open>
  The result of \<open>findArtists\<close>. The artists are whatever \<open>JSON.parse\<close> returned:
  the type \<open>'json\<close> of parsed values is a parameter. A source is the \<open>web\<close> object
  of a grounding chunk.
\<close>

record 'json artist_search_result =
  artists :: 'json
  sources :: "web list"

definition artistsPrompt :: "string \<Rightarrow> bool \<Rightarrow> string" where
  "artistsPrompt location image' =
     ''\<newline>'' @
     ''        You are an expert data extractor. Your task is to find tattoo artists and studios in \"'' @
     location @
     ''\" and return the data in a specific JSON format.\<newline>'' @
     ''        '' @
     (if image' then ''An image has been provided as a style reference. Analyze its artistic style (e.g., photorealism, geometric, watercolor, traditional, fine-line). You MUST analyze the portfolios of the artists you find and set 'styleMatch' to true for artists whose work is a strong match for the provided style.''
      else '''') @
     ''\<newline>'' @
     ''\<newline>'' @
     ''        For each artist or studio found, you MUST provide the following information in a JSON object. Adhere strictly to the keys and data types.\<newline>'' @
     ''\<newline>'' @
     ''        - name: (string) The studio or artist's full name.\<newline>'' @
     ''        - description: (string) A concise one-sentence description of their work or specialty.\<newline>'' @
     ''        - address: (string) The complete physical address.\<newline>'' @
     ''        - latitude: (number) The geographic latitude of the address. This is required.\<newline>'' @
     ''        - longitude: (number) The geographic longitude of the address. This is required.\<newline>'' @
     ''        - website: (string | null) The main website URL.\<newline>'' @
     ''        - specialties: (string[]) An array of strings listing their specific tattoo styles (e.g., [\"Realism\", \"Fine-line\", \"Japanese Traditional\"]). If not explicitly stated, infer styles from the description.\<newline>'' @
     ''        - availability: (string | null) A short status like \"Accepting new clients\", \"Books opening soon\", or \"Books currently closed\".\<newline>'' @
     ''        - portfolioUrl: (string | null) A direct link to their primary portfolio (e.g., Instagram, official gallery).\<newline>'' @
     ''        - portfolio: (string[]) An array of 3-5 direct URLs to images of their past work. These must be direct image links (ending in .jpg, .png, etc.), not links to pages.\<newline>'' @
     ''        - styleMatch: (boolean) '' @
     (if image' then ''Set to true if their portfolio style matches the provided image's style, otherwise false.''
      else ''Set to false.'') @
     ''\<newline>'' @
     ''\<newline>'' @
     ''        **CRITICAL INSTRUCTIONS:**\<newline>'' @
     ''        - Your entire response MUST be a single, valid JSON array of these objects.\<newline>'' @
     ''        - Do NOT include any text, markdown formatting (like ```json), or explanations before or after the JSON array.\<newline>'' @
     ''        - If a piece of information cannot be found, use `null` for string fields and an empty array `[]` for array fields.\<newline>'' @
     ''        - Latitude and Longitude are mandatory. You must find the coordinates for the given address.\<newline>'' @
     ''    ''"

text \<open>
  \<open>text.replace(/^```json|```$/g, '')\<close>: the fence that opens the text, and the
  fence that closes what is left of it.
\<close>

definition strip_fences :: "string \<Rightarrow> string" where
  "strip_fences t =
     (let r = (if take 7 t = ''```json'' then drop 7 t else t) in
      if 3 \<le> length r \<and> drop (length r - 3) r = ''```'' then take (length r - 3) r else r)"

text \<open>
  The sources: the \<open>web\<close> objects of the grounding chunks that have a \<open>uri\<close> and a
  \<open>title\<close>, then the \<open>reduce\<close> that pushes an object unless one with its \<open>uri\<close>
  was pushed before.
\<close>

definition push_unless_found :: "web list \<Rightarrow> web \<Rightarrow> web list" where
  "push_unless_found acc current =
     (if List.find (\<lambda>item. web_uri item = web_uri current) acc = None then acc @ [current]
      else acc)"

definition groundingWebs :: "response \<Rightarrow> web list" where
  "groundingWebs response =
     (let groundingChunks' =
        (case Option.bind (Option.bind (first_candidate response) groundingMetadata) groundingChunks of
           None \<Rightarrow> [] | Some chunks \<Rightarrow> chunks)
      in [w. Some w \<leftarrow> map chunk_web groundingChunks', truthy (web_uri w) \<and> truthy (web_title w)])"

definition groundingSources :: "response \<Rightarrow> web list" where
  "groundingSources response = foldl push_unless_found [] (groundingWebs response)"

text \<open>
  \<open>findArtists\<close>. \<open>JSON.parse\<close> is a parameter (\<open>None\<close> where it throws), and the
  optional image is the outcome of reading it.
\<close>

definition findArtists ::
  "genai \<Rightarrow> (string \<Rightarrow> 'json option) \<Rightarrow> string \<Rightarrow> (js_value + string) option
   \<Rightarrow> js_value + 'json artist_search_result" where
  "findArtists ai parseJSON location image' =
     (let textPrompt = artistsPrompt location (image' \<noteq> None);
          parts' = (case image' of
                     None \<Rightarrow> Inr []
                   | Some read \<Rightarrow> (case fileToPart read of
                                     Inl e \<Rightarrow> Inl e
                                   | Inr imagePart \<Rightarrow> Inr [ImagePart imagePart]))
      in case parts' of
           Inl e \<Rightarrow> Inl e
         | Inr imageParts \<Rightarrow>
             (let attempt =
                (case models_generateContent ai
                        \<lparr>content_model = ''gemini-2.5-flash'',
                         request_parts = imageParts @ [TextPart textPrompt],
                         responseModalities = None, googleSearch = True\<rparr> of
                   Inl e \<Rightarrow> Inl e
                 | Inr response \<Rightarrow>
                     (case response_text response of
                        None \<Rightarrow> Inl (cannot_read ''trim'')
                      | Some raw \<Rightarrow>
                          (let jsonString = trim (strip_fences (trim raw)) in
                           case parseJSON jsonString of
                             None \<Rightarrow>
                               Inl (Error ''The AI returned a response that could not be understood. Please try a different search.'')
                           | Some parsed \<Rightarrow>
                               Inr \<lparr>artists = parsed, sources = groundingSources response\<rparr>)))
              in case attempt of
                   Inr result \<Rightarrow> Inr result
                 | Inl error \<Rightarrow>
                     Inl (Error (''Failed to find artists. ''
                                 @ (if instanceof_Error error then interpolate (message error)
                                    else '''')))))"

text \<open>A message of a conversation.\<close>

record chat_msg =
  sender :: string
  msg_text :: string
  timestamp :: string

text \<open>\<open>xs.join(sep)\<close>\<close>

fun join :: "string \<Rightarrow> string list \<Rightarrow> string" where
  "join sep [] = []"
| "join sep [x] = x"
| "join sep (x # y # ys) = x @ sep @ join sep (y # ys)"

definition specialtiesText :: "artist \<Rightarrow> string" where
  "specialtiesText artist =
     (case specialties artist of
        None \<Rightarrow> ''various styles''
      | Some ss \<Rightarrow> if join '', '' ss = [] then ''various styles'' else join '', '' ss)"

definition availabilityText :: "artist \<Rightarrow> string" where
  "availabilityText artist =
     (if truthy (availability artist) then interpolate (availability artist) else ''not specified'')"

definition systemInstructionText :: "artist \<Rightarrow> string" where
  "systemInstructionText artist =
     ''\<newline>'' @
     ''        You are roleplaying as '' @
     artist_name artist @
     '', a professional tattoo artist.\<newline>'' @
     ''        Your persona: You are helpful, professional, and passionate about your craft.\<newline>'' @
     ''        Your specialties are: '' @
     specialtiesText artist @
     ''.\<newline>'' @
     ''        Your availability is: '' @
     availabilityText artist @
     ''.\<newline>'' @
     ''        \<newline>'' @
     ''        Instructions:\<newline>'' @
     ''        - Respond to the user's message in a conversational and helpful way, staying in character as the artist.\<newline>'' @
     ''        - Keep your responses concise and to the point.\<newline>'' @
     ''        - You can discuss tattoo ideas, placement, pricing concepts (give estimates, not firm quotes), and scheduling.\<newline>'' @
     ''        - Do not break character. Do not mention that you are an AI.\<newline>'' @
     ''    ''"

text \<open>
  \<open>generateArtistResponse\<close>. The mapped history loses its last entry and is then used
  nowhere: the chat is created from the model and the system instruction alone, so it
  starts with no history.
\<close>

definition artistRequest :: "chat_msg list \<Rightarrow> artist \<Rightarrow> string \<Rightarrow> string \<Rightarrow> chat_request" where
  "artistRequest conversationHistory artist userMessage model =
     (let history = butlast (map (\<lambda>m. \<lparr>role = (if sender m = ''user'' then ''user'' else ''model''),
                                        entry_parts = [msg_text m]\<rparr>) conversationHistory);
          systemInstruction' = systemInstructionText artist
      in \<lparr>chat_model = model, systemInstruction = systemInstruction',
          chat_history = [], chat_message = userMessage\<rparr>)"

definition generateArtistResponse ::
  "genai \<Rightarrow> chat_msg list \<Rightarrow> artist \<Rightarrow> string \<Rightarrow> string \<Rightarrow> js_value + string" where
  "generateArtistResponse ai conversationHistory artist userMessage model =
     (let attempt =
        (case chats_sendMessage ai (artistRequest conversationHistory artist userMessage model) of
           Inl e \<Rightarrow> Inl e
         | Inr response \<Rightarrow>
             (case response_text response of
                None \<Rightarrow> Inl (cannot_read ''trim'')
              | Some t \<Rightarrow> Inr (trim t)))
      in case attempt of
           Inr reply \<Rightarrow> Inr reply
         | Inl error \<Rightarrow> Inl (Error ''Failed to get a response from the artist AI.''))"

section \<open>The application\<close>

datatype AppStep = START | DESIGN | TRY_ON | DONE | FIND_ARTIST | GALLERY

datatype contract_status = Pending | Approved | In_Progress | Completed

record contract =
  status :: contract_status
  price :: string
  appointmentDate :: string

text \<open>
  A project. \<open>designImage\<close> is typed \<open>string\<close>, but the consultation request passes
  \<open>finalImage || selectedTattoo!\<close>, which is \<open>null\<close> when the user came to the artist
  search straight from the start screen.
\<close>

record project =
  project_id :: string
  designImage :: "string option"
  stencilImage :: "string option"
  project_artist :: artist
  savedAt :: string
  conversation :: "chat_msg list"
  project_contract :: contract

text \<open>\<open>Partial<Project>\<close>: a property is there (\<open>Some\<close>) or not.\<close>

record project_updates =
  upd_id :: "string option"
  upd_designImage :: "string option option"
  upd_stencilImage :: "string option option"
  upd_artist :: "artist option"
  upd_savedAt :: "string option"
  upd_conversation :: "chat_msg list option"
  upd_contract :: "contract option"

definition no_updates :: project_updates where
  "no_updates =
     \<lparr>upd_id = None, upd_designImage = None, upd_stencilImage = None, upd_artist = None,
      upd_savedAt = None, upd_conversation = None, upd_contract = None\<rparr>"

text \<open>\<open>{ ...p, ...updates }\<close>\<close>

definition spread :: "project \<Rightarrow> project_updates \<Rightarrow> project" where
  "spread p updates =
     \<lparr>project_id = (case upd_id updates of None \<Rightarrow> project_id p | Some v \<Rightarrow> v),
      designImage = (case upd_designImage updates of None \<Rightarrow> designImage p | Some v \<Rightarrow> v),
      stencilImage = (case upd_stencilImage updates of None \<Rightarrow> stencilImage p | Some v \<Rightarrow> v),
      project_artist = (case upd_artist updates of None \<Rightarrow> project_artist p | Some v \<Rightarrow> v),
      savedAt = (case upd_savedAt updates of None \<Rightarrow> savedAt p | Some v \<Rightarrow> v),
      conversation = (case upd_conversation updates of None \<Rightarrow> conversation p | Some v \<Rightarrow> v),
      project_contract = (case upd_contract updates of None \<Rightarrow> project_contract p | Some v \<Rightarrow> v)\<rparr>"

text \<open>
  What the browser supplies: \<open>atob\<close>, \<open>JSON.stringify\<close> and \<open>JSON.parse\<close> on the
  projects array (\<open>None\<close> where they throw), and whether \<open>localStorage.setItem\<close>
  stores a value under a key or throws (the storage quota is the browser's).
\<close>

record browser =
  atob :: "string \<Rightarrow> string option"
  JSON_stringify :: "project list \<Rightarrow> string"
  JSON_parse :: "string \<Rightarrow> project list option"
  setItem_accepts :: "string \<Rightarrow> string \<Rightarrow> bool"

type_synonym storage = "string \<rightharpoonup> string"

definition setItem :: "browser \<Rightarrow> storage \<Rightarrow> string \<Rightarrow> string \<Rightarrow> js_value + storage" where
  "setItem br st k v =
     (if setItem_accepts br k v then Inr (st(k \<mapsto> v)) else Inl (DOMException ''QuotaExceededError''))"

text \<open>
  The state of the \<open>App\<close> component: its step, what \<open>handleReset\<close> clears, the
  booking and project state, and the local storage. The rest (the reference image search
  and the style description, the location, sources, filters and sort order of the artist
  search, the map, the canvas selection) feeds requests and the rendering only and is
  left out.
\<close>

record app_state =
  appStep :: AppStep
  prompt :: string
  generatedTattoos :: "string list"
  selectedTattoo :: "string option"
  tryOnImage :: "string option"
  finalImage :: "string option"
  artists' :: "artist list"
  searchedForArtists :: bool
  bookingArtist :: "artist option"
  projects :: "project list"
  viewingProject :: "project option"
  localStorage :: storage

definition initial_state :: "storage \<Rightarrow> app_state" where
  "initial_state st =
     \<lparr>appStep = START, prompt = [], generatedTattoos = [], selectedTattoo = None,
      tryOnImage = None, finalImage = None, artists' = [], searchedForArtists = False,
      bookingArtist = None, projects = [], viewingProject = None, localStorage = st\<rparr>"

definition projects_key :: string where
  "projects_key = ''inkgenius_projects''"

text \<open>The header badge: \<open>galleryItemCount={projects.length}\<close>, shown when positive.\<close>

definition galleryItemCount :: "app_state \<Rightarrow> nat" where
  "galleryItemCount s = length (projects s)"

definition badge :: "app_state \<Rightarrow> nat option" where
  "badge s = (if galleryItemCount s > 0 then Some (galleryItemCount s) else None)"

text \<open>
  \<open>updateProject\<close>: the state is set first; a \<open>setItem\<close> that throws is caught and
  logged.
\<close>

definition updateProject :: "browser \<Rightarrow> string \<Rightarrow> project_updates \<Rightarrow> app_state \<Rightarrow> app_state" where
  "updateProject br projectId updates s =
     (let updatedProjects = map (\<lambda>p. if project_id p = projectId then spread p updates else p) (projects s);
          s1 = s\<lparr>projects := updatedProjects,
                 viewingProject := map_option (\<lambda>prev. spread prev updates) (viewingProject s)\<rparr>
      in case setItem br (localStorage s1) projects_key (JSON_stringify br updatedProjects) of
           Inl error \<Rightarrow> s1
         | Inr st \<Rightarrow> s1\<lparr>localStorage := st\<rparr>)"

definition handleReset :: "app_state \<Rightarrow> app_state" where
  "handleReset s =
     s\<lparr>appStep := START, prompt := [], generatedTattoos := [], selectedTattoo := None,
       tryOnImage := None, finalImage := None, artists' := [], searchedForArtists := False\<rparr>"

definition handleSelectTattoo :: "string \<Rightarrow> app_state \<Rightarrow> app_state" where
  "handleSelectTattoo tattoo s = s\<lparr>selectedTattoo := Some tattoo, appStep := TRY_ON\<rparr>"

text \<open>
  A handler that may throw returns the thrown value, if any, beside the state with the
  updates made before the throw.
\<close>

fun file_if_truthy :: "browser \<Rightarrow> string option \<Rightarrow> string \<Rightarrow> (js_value + js_file) option" where
  "file_if_truthy br None filename = None"
| "file_if_truthy br (Some url) filename =
     (if url = [] then None else Some (dataURLtoFile (atob br) url filename))"

text \<open>
  \<open>handleFindArtists\<close>. The search it starts changes no state until it succeeds
  (event \<open>ArtistsFound\<close> below).
\<close>

definition handleFindArtists :: "browser \<Rightarrow> bool \<Rightarrow> app_state \<Rightarrow> js_value option \<times> app_state" where
  "handleFindArtists br fromStartScreen s =
     (let imageFile =
        (if fromStartScreen then Inr None
         else (case file_if_truthy br (finalImage s) ''final_design.png'' of
                 Some f \<Rightarrow> map_sum id Some f
               | None \<Rightarrow>
                   (case file_if_truthy br (selectedTattoo s) ''selected_design.png'' of
                      Some f \<Rightarrow> map_sum id Some f
                    | None \<Rightarrow> Inr None)))
      in case imageFile of
           Inl error \<Rightarrow> (Some error, s)
         | Inr f \<Rightarrow>
             (None, if fromStartScreen then s\<lparr>searchedForArtists := False, appStep := FIND_ARTIST\<rparr>
                    else s\<lparr>searchedForArtists := False\<rparr>))"

text \<open>
  A number inside a template literal, as in \<open>`proj_${Date.now()}`\<close>: its decimal
  digits, after a minus sign when it is negative.
\<close>

definition digit_char :: "nat \<Rightarrow> char" where
  "digit_char k = char_of (of_char CHR ''0'' + k)"

function decimal :: "nat \<Rightarrow> string" where
  "decimal n = (if n div 10 = 0 then [digit_char n] else decimal (n div 10) @ [digit_char (n mod 10)])"
  by pat_completeness auto
termination
  by (relation "measure id") auto

declare decimal.simps [simp del]

definition number_to_string :: "int \<Rightarrow> string" where
  "number_to_string i = (if 0 \<le> i then decimal (nat i) else CHR ''-'' # decimal (nat (- i)))"

text \<open>
  \<open>handleSaveProject\<close>. \<open>now\<close> is what \<open>Date.now()\<close> returns and \<open>isoString\<close> what
  \<open>new Date().toISOString()\<close> returns. The state is set before \<open>setItem\<close> is
  called, and nothing catches a \<open>setItem\<close> that throws.
\<close>

definition handleSaveProject ::
  "browser \<Rightarrow> int \<Rightarrow> string \<Rightarrow> artist \<Rightarrow> string option \<Rightarrow> app_state \<Rightarrow> js_value option \<times> app_state" where
  "handleSaveProject br now isoString artist design s =
     (let newProject =
            \<lparr>project_id = ''proj_'' @ number_to_string now,
             designImage = design,
             stencilImage = None,
             project_artist = artist,
             savedAt = isoString,
             conversation = [],
             project_contract = \<lparr>status = Pending, price = [], appointmentDate = []\<rparr>\<rparr>;
          updatedProjects = projects s @ [newProject];
          s1 = s\<lparr>projects := updatedProjects\<rparr>
      in case setItem br (localStorage s1) projects_key (JSON_stringify br updatedProjects) of
           Inl error \<Rightarrow> (Some error, s1)
         | Inr st \<Rightarrow> (None, s1\<lparr>localStorage := st\<rparr>))"

text \<open>
  The click handler of the delete button, after the user has confirmed. It is rendered
  only while a project is viewed.
\<close>

definition deleteProject :: "browser \<Rightarrow> app_state \<Rightarrow> js_value option \<times> app_state" where
  "deleteProject br s =
     (case viewingProject s of
        None \<Rightarrow> (None, s)
      | Some viewing \<Rightarrow>
          (let updatedProjects = filter (\<lambda>p. project_id p \<noteq> project_id viewing) (projects s);
               s1 = s\<lparr>projects := updatedProjects\<rparr>
           in case setItem br (localStorage s1) projects_key (JSON_stringify br updatedProjects) of
                Inl error \<Rightarrow> (Some error, s1)
              | Inr st \<Rightarrow> (None, s1\<lparr>localStorage := st, viewingProject := None\<rparr>)))"

definition unassigned :: artist where
  "unassigned =
     \<lparr>artist_name = ''Unassigned'', description = None, address = None, website = None,
      specialties = None, availability = None, portfolioUrl = None, portfolio = None,
      latitude = None, longitude = None, styleMatch = None\<rparr>"

text \<open>
  What happens to the application: a user action (enabled where the element that
  carries it is rendered) or the success of a request (which calls \<open>onSuccess\<close>
  whatever the state is then). An event carries what the environment supplies: the
  result of the request, the clock readings.
\<close>

datatype event =
    Mount
  | StartDesigning
  | StartFindArtist
  | SetPrompt string
  | TattoosGenerated "string list"
  | SelectTattoo string
  | TryOnImageLoaded string
  | BlendSucceeded string
  | FindArtistFromDone
  | SearchArtists
  | ArtistsFound "artist list"
  | SaveDesign int string
  | ContactArtist artist
  | CloseBooking
  | SendConsultation int string
  | ShowGallery
  | Reset
  | ViewProject project
  | CloseProject
  | DeleteProject
  | StencilGenerated string
  | SendMessage string string
  | ArtistReplied string string

fun handle :: "browser \<Rightarrow> event \<Rightarrow> app_state \<Rightarrow> app_state" where
  "handle br Mount s =
     (case localStorage s projects_key of
        None \<Rightarrow> s
      | Some savedProjects \<Rightarrow>
          if savedProjects = [] then s
          else (case JSON_parse br savedProjects of None \<Rightarrow> s | Some ps \<Rightarrow> s\<lparr>projects := ps\<rparr>))"
| "handle br StartDesigning s = (if appStep s = START then s\<lparr>appStep := DESIGN\<rparr> else s)"
| "handle br StartFindArtist s =
     (if appStep s = START
      then snd (handleFindArtists br True (s\<lparr>finalImage := None, selectedTattoo := None\<rparr>))
      else s)"
| "handle br (SetPrompt p) s = (if appStep s = DESIGN then s\<lparr>prompt := p\<rparr> else s)"
| "handle br (TattoosGenerated tattoos) s = s\<lparr>generatedTattoos := tattoos\<rparr>"
| "handle br (SelectTattoo tattoo) s =
     (if appStep s = DESIGN \<and> tattoo \<in> set (generatedTattoos s) then handleSelectTattoo tattoo s
      else s)"
| "handle br (TryOnImageLoaded url) s = s\<lparr>tryOnImage := Some url\<rparr>"
| "handle br (BlendSucceeded blended) s = s\<lparr>finalImage := Some blended, appStep := DONE\<rparr>"
| "handle br FindArtistFromDone s =
     (if appStep s = DONE \<and> truthy (finalImage s)
      then snd (handleFindArtists br False (s\<lparr>appStep := FIND_ARTIST\<rparr>))
      else s)"
| "handle br SearchArtists s =
     (if appStep s = FIND_ARTIST then snd (handleFindArtists br False s) else s)"
| "handle br (ArtistsFound found) s = s\<lparr>artists' := found, searchedForArtists := True\<rparr>"
| "handle br (SaveDesign now isoString) s =
     (if appStep s = DONE \<and> truthy (finalImage s)
      then snd (handleSaveProject br now isoString unassigned (finalImage s) s)
      else s)"
| "handle br (ContactArtist a) s =
     (if appStep s = FIND_ARTIST \<and> a \<in> set (artists' s) then s\<lparr>bookingArtist := Some a\<rparr> else s)"
| "handle br CloseBooking s = s\<lparr>bookingArtist := None\<rparr>"
| "handle br (SendConsultation now isoString) s =
     (case bookingArtist s of
        None \<Rightarrow> s
      | Some a \<Rightarrow>
          (case handleSaveProject br now isoString a (js_or (finalImage s) (selectedTattoo s)) s of
             (Some error, s') \<Rightarrow> s'
           | (None, s') \<Rightarrow> s'\<lparr>bookingArtist := None\<rparr>))"
| "handle br ShowGallery s = s\<lparr>appStep := GALLERY\<rparr>"
| "handle br Reset s = handleReset s"
| "handle br (ViewProject p) s =
     (if appStep s = GALLERY \<and> p \<in> set (projects s) then s\<lparr>viewingProject := Some p\<rparr> else s)"
| "handle br CloseProject s = s\<lparr>viewingProject := None\<rparr>"
| "handle br DeleteProject s = snd (deleteProject br s)"
| "handle br (StencilGenerated stencil) s =
     (case viewingProject s of
        None \<Rightarrow> s
      | Some viewing \<Rightarrow>
          updateProject br (project_id viewing) (no_updates\<lparr>upd_stencilImage := Some (Some stencil)\<rparr>) s)"
| "handle br (SendMessage typed stamp) s =
     (case viewingProject s of
        None \<Rightarrow> s
      | Some viewing \<Rightarrow>
          if trim typed = [] then s
          else updateProject br (project_id viewing)
                 (no_updates\<lparr>upd_conversation :=
                     Some (conversation viewing @ [\<lparr>sender = ''user'', msg_text = typed, timestamp = stamp\<rparr>])\<rparr>) s)"
| "handle br (ArtistReplied reply stamp) s =
     (case viewingProject s of
        None \<Rightarrow> s
      | Some viewing \<Rightarrow>
          updateProject br (project_id viewing)
            (no_updates\<lparr>upd_conversation :=
                Some (conversation viewing @ [\<lparr>sender = ''artist'', msg_text = reply, timestamp = stamp\<rparr>])\<rparr>) s)"

text \<open>A run of the application: events handled one after the other.\<close>

fun run :: "browser \<Rightarrow> event list \<Rightarrow> app_state \<Rightarrow> app_state" where
  "run br [] s = s"
| "run br (e # es) s = run br es (handle br e s)"

section \<open>Sample inputs\<close>

text \<open>
  A browser for the examples: \<open>atob\<close> knows the Base64 text of the two bytes 65 and 66,
  the stand-in for \<open>JSON.stringify\<close> writes the id and the conversation texts of each
  project, and \<open>setItem\<close> stores a value of at most \<open>quota\<close> characters.
\<close>

definition sample_stringify :: "project list \<Rightarrow> string" where
  "sample_stringify ps =
     ''['' @ join '','' (map (\<lambda>p. project_id p @ '':'' @ join ''|'' (map msg_text (conversation p))) ps) @ '']''"

definition sample_browser :: "nat \<Rightarrow> browser" where
  "sample_browser quota =
     \<lparr>atob = (\<lambda>x. if x = ''QUI='' then Some ''AB'' else None),
      JSON_stringify = sample_stringify,
      JSON_parse = (\<lambda>x. None),
      setItem_accepts = (\<lambda>k v. length v \<le> quota)\<rparr>"

definition sample_image :: string where
  "sample_image = ''data:image/png;base64,QUI=''"

definition sample_project :: project where
  "sample_project =
     \<lparr>project_id = ''proj_7'', designImage = Some sample_image, stencilImage = None,
      project_artist = unassigned, savedAt = ''2026-01-01T00:00:00.000Z'', conversation = [],
      project_contract = \<lparr>status = Pending, price = [], appointmentDate = []\<rparr>\<rparr>"

text \<open>An API that rejects every request with \<open>e\<close>, and one that answers every request.\<close>

definition failing_api :: "js_value \<Rightarrow> genai" where
  "failing_api e =
     \<lparr>models_generateImages = (\<lambda>request. Inl e),
      models_generateContent = (\<lambda>request. Inl e),
      chats_sendMessage = (\<lambda>request. Inl e)\<rparr>"

definition answering_api :: "images_response \<Rightarrow> response \<Rightarrow> genai" where
  "answering_api images answer =
     \<lparr>models_generateImages = (\<lambda>request. Inr images),
      models_generateContent = (\<lambda>request. Inr answer),
      chats_sendMessage = (\<lambda>request. Inr answer)\<rparr>"

text \<open>
  Responses: one whose first candidate has a text part and then an image part; one
  whose first candidate has only text and whose second candidate has the image; one
  with grounding chunks, two of them for the same page.
\<close>

definition text_part :: part where
  "text_part = \<lparr>part_inlineData = None, part_text = Some ''Here is your image''\<rparr>"

definition image_part :: part where
  "image_part =
     \<lparr>part_inlineData = Some \<lparr>mimeType = Some ''image/png'', data = Some ''QUI=''\<rparr>, part_text = None\<rparr>"

definition candidate_of :: "part list \<Rightarrow> candidate" where
  "candidate_of ps =
     \<lparr>cand_content = Some \<lparr>content_parts = Some ps\<rparr>, finishReason = Some ''STOP'',
      groundingMetadata = None\<rparr>"

definition image_response :: response where
  "image_response =
     \<lparr>promptFeedback = None, candidates = Some [candidate_of [text_part, image_part]],
      response_text = Some ''Here is your image''\<rparr>"

definition second_candidate_response :: response where
  "second_candidate_response =
     \<lparr>promptFeedback = None, candidates = Some [candidate_of [text_part], candidate_of [image_part]],
      response_text = Some ''Here is your image''\<rparr>"

definition web_of :: "string \<Rightarrow> string \<Rightarrow> grounding_chunk" where
  "web_of u t = \<lparr>chunk_web = Some \<lparr>web_uri = Some u, web_title = Some t\<rparr>\<rparr>"

definition grounded_response :: response where
  "grounded_response =
     \<lparr>promptFeedback = None,
      candidates = Some
        [\<lparr>cand_content = None, finishReason = Some ''STOP'',
          groundingMetadata = Some \<lparr>groundingChunks = Some
            [web_of ''https://a.example'' ''A'', \<lparr>chunk_web = None\<rparr>,
             web_of ''https://b.example'' ''B'', web_of ''https://a.example'' ''A again'',
             \<lparr>chunk_web = Some \<lparr>web_uri = Some ''https://c.example'', web_title = None\<rparr>\<rparr>]\<rparr>\<rparr>],
      response_text = Some ''```json\<newline>42\<newline>```''\<rparr>"

text \<open>A stand-in for \<open>JSON.parse\<close> that knows one text, the number 42.\<close>

definition sample_parse :: "string \<Rightarrow> int option" where
  "sample_parse x = (if x = ''42'' then Some 42 else None)"

text \<open>The linear flow as the specification words it: the steps that may follow a step.\<close>

fun spec_linear_flow :: "AppStep \<Rightarrow> AppStep list" where
  "spec_linear_flow START = [DESIGN]"
| "spec_linear_flow DESIGN = [TRY_ON]"
| "spec_linear_flow TRY_ON = [DONE]"
| "spec_linear_flow DONE = [FIND_ARTIST, GALLERY]"
| "spec_linear_flow FIND_ARTIST = [GALLERY]"
| "spec_linear_flow GALLERY = []"

text \<open>The gallery with the sample project saved, stored and opened.\<close>

definition viewing_state :: app_state where
  "viewing_state =
     (initial_state [projects_key \<mapsto> sample_stringify [sample_project]])
       \<lparr>appStep := GALLERY, projects := [sample_project], viewingProject := Some sample_project\<rparr>"

section \<open>The sources, by the addresses seen so far\<close>

text \<open>
  What the \<open>reduce\<close> of \<open>findArtists\<close> computes, as a recursion along the list
  that carries the set of addresses already kept.
\<close>

fun unseen :: "string option set \<Rightarrow> web list \<Rightarrow> web list" where
  "unseen seen [] = []"
| "unseen seen (w # ws) =
     (if web_uri w \<in> seen then unseen seen ws else w # unseen (insert (web_uri w) seen) ws)"

section \<open>Words of the claims on responses\<close>

text \<open>
  A response is blocked when its prompt feedback has a (non-empty) block reason. A
  candidate has an image part when one of its parts has \<open>inlineData\<close>.
\<close>

definition blocked :: "response \<Rightarrow> bool" where
  "blocked response = truthy (Option.bind (promptFeedback response) blockReason)"

definition has_image_part :: "candidate \<Rightarrow> bool" where
  "has_image_part c =
     (case Option.bind (cand_content c) content_parts of
        None \<Rightarrow> False
      | Some ps \<Rightarrow> list_ex (\<lambda>p. part_inlineData p \<noteq> None) ps)"

definition first_candidate_has_image :: "response \<Rightarrow> bool" where
  "first_candidate_has_image response =
     (case first_candidate response of None \<Rightarrow> False | Some c \<Rightarrow> has_image_part c)"

definition some_candidate_has_image :: "response \<Rightarrow> bool" where
  "some_candidate_has_image response =
     (case candidates response of None \<Rightarrow> False | Some cs \<Rightarrow> list_ex has_image_part cs)"

section \<open>Words of the claim on project ids\<close>

text \<open>
  An event is safe for the ids in a state when the id it would make from its clock
  reading is not the id of a project of the state (a save), or when the projects it
  would load have distinct ids (the load at mount); every other event is safe. A run is
  safe when each of its events is, in the state it meets.
\<close>

definition new_id_unused :: "int \<Rightarrow> app_state \<Rightarrow> bool" where
  "new_id_unused now s = (''proj_'' @ number_to_string now \<notin> project_id ` set (projects s))"

fun id_safe :: "browser \<Rightarrow> event \<Rightarrow> app_state \<Rightarrow> bool" where
  "id_safe br (SaveDesign now isoString) s = new_id_unused now s"
| "id_safe br (SendConsultation now isoString) s = new_id_unused now s"
| "id_safe br Mount s =
     (case localStorage s projects_key of
        None \<Rightarrow> True
      | Some savedProjects \<Rightarrow>
          (case JSON_parse br savedProjects of
             None \<Rightarrow> True
           | Some ps \<Rightarrow> distinct (map project_id ps)))"
| "id_safe br e s = True"

fun id_safe_run :: "browser \<Rightarrow> event list \<Rightarrow> app_state \<Rightarrow> bool" where
  "id_safe_run br [] s = True"
| "id_safe_run br (e # es) s = (id_safe br e s \<and> id_safe_run br es (handle br e s))"

section \<open>Data URLs: verified properties\<close>

lemma split_nonempty: "split c xs \<noteq> []"
  by (induction xs) (auto split: list.splits)

















section \<open>The service layer: verified properties\<close>

subsection \<open>Image responses\<close>

lemma find_inlineData:
  "Option.bind (List.find (\<lambda>p. part_inlineData p \<noteq> None) ps) part_inlineData \<noteq> None
     \<longleftrightarrow> list_ex (\<lambda>p. part_inlineData p \<noteq> None) ps"
  by (induction ps) auto

lemma image_part_found:
  "Option.bind (imagePartFromResponse r) part_inlineData \<noteq> None \<longleftrightarrow> first_candidate_has_image r"
proof (cases "Option.bind (Option.bind (first_candidate r) cand_content) content_parts")
  case None
  then show ?thesis
    by (auto simp: imagePartFromResponse_def first_candidate_has_image_def has_image_part_def
        split: option.splits Option.bind_splits)
next
  case (Some ps)
  then have "first_candidate_has_image r = list_ex (\<lambda>p. part_inlineData p \<noteq> None) ps"
    by (auto simp: first_candidate_has_image_def has_image_part_def
        split: option.splits Option.bind_splits)
  with Some find_inlineData[of ps] show ?thesis
    by (simp add: imagePartFromResponse_def)
qed

text \<open>
  Claim C6, as the code has it. Whatever the response: if it is blocked (its prompt
  feedback has a non-empty block reason), \<open>handleImageEditApiResponse\<close> throws the
  "Request was blocked" error; otherwise, if some part of the first candidate has
  \<open>inlineData\<close>, it returns \<open>data:<mimeType>;base64,<data>\<close> built from the first
  such part; otherwise it throws an error that names the first candidate's finish
  reason when there is one other than \<open>STOP\<close>, and else quotes the trimmed text of the
  response or says that there was no feedback. So it returns a data URI exactly when
  the response is not blocked and its first candidate has an image part.
\<close>

theorem handleImageEditApiResponse_outcomes:
  "(blocked r \<longrightarrow>
      handleImageEditApiResponse r ctx =
        Inl (Error (''Request was blocked. Reason: ''
                    @ interpolate (Option.bind (promptFeedback r) blockReason) @ ''. ''
                    @ (if truthy (Option.bind (promptFeedback r) blockReasonMessage)
                       then interpolate (Option.bind (promptFeedback r) blockReasonMessage) else ''''))))
   \<and> (\<not> blocked r \<and> first_candidate_has_image r \<longrightarrow>
      (\<exists>p d. imagePartFromResponse r = Some p \<and> part_inlineData p = Some d
             \<and> handleImageEditApiResponse r ctx
                 = Inr (''data:'' @ interpolate (mimeType d) @ '';base64,'' @ interpolate (data d))))
   \<and> (\<not> blocked r \<and> \<not> first_candidate_has_image r \<longrightarrow>
      handleImageEditApiResponse r ctx =
        (if truthy (Option.bind (first_candidate r) finishReason)
            \<and> Option.bind (first_candidate r) finishReason \<noteq> Some ''STOP''
         then Inl (Error (''Image generation for '' @ ctx @ '' stopped unexpectedly. Reason: ''
                          @ interpolate (Option.bind (first_candidate r) finishReason)
                          @ ''. This often relates to safety settings.''))
         else Inl (Error (''The AI model did not return an image for the '' @ ctx @ ''. ''
                          @ (if truthy (map_option trim (response_text r))
                             then ''Feedback: \"'' @ interpolate (map_option trim (response_text r)) @ ''\"''
                             else ''No additional feedback was provided.'')))))
   \<and> ((\<exists>uri. handleImageEditApiResponse r ctx = Inr uri)
        \<longleftrightarrow> \<not> blocked r \<and> first_candidate_has_image r)"
proof -
  have b: "blocked r \<Longrightarrow> handleImageEditApiResponse r ctx =
        Inl (Error (''Request was blocked. Reason: ''
                    @ interpolate (Option.bind (promptFeedback r) blockReason) @ ''. ''
                    @ (if truthy (Option.bind (promptFeedback r) blockReasonMessage)
                       then interpolate (Option.bind (promptFeedback r) blockReasonMessage) else '''')))"
    by (simp add: blocked_def handleImageEditApiResponse_def)
  have i: "\<exists>p d. imagePartFromResponse r = Some p \<and> part_inlineData p = Some d
             \<and> handleImageEditApiResponse r ctx
                 = Inr (''data:'' @ interpolate (mimeType d) @ '';base64,'' @ interpolate (data d))"
    if "\<not> blocked r" "first_candidate_has_image r"
  proof -
    from that(2) obtain d where d: "Option.bind (imagePartFromResponse r) part_inlineData = Some d"
      using image_part_found[of r] by auto
    then obtain p where p: "imagePartFromResponse r = Some p" "part_inlineData p = Some d"
      by (auto simp: Option.bind_eq_Some_conv)
    with that(1) d show ?thesis
      by (simp add: blocked_def handleImageEditApiResponse_def)
  qed
  have n: "handleImageEditApiResponse r ctx =
        (if truthy (Option.bind (first_candidate r) finishReason)
            \<and> Option.bind (first_candidate r) finishReason \<noteq> Some ''STOP''
         then Inl (Error (''Image generation for '' @ ctx @ '' stopped unexpectedly. Reason: ''
                          @ interpolate (Option.bind (first_candidate r) finishReason)
                          @ ''. This often relates to safety settings.''))
         else Inl (Error (''The AI model did not return an image for the '' @ ctx @ ''. ''
                          @ (if truthy (map_option trim (response_text r))
                             then ''Feedback: \"'' @ interpolate (map_option trim (response_text r)) @ ''\"''
                             else ''No additional feedback was provided.''))))"
    if "\<not> blocked r" "\<not> first_candidate_has_image r"
  proof -
    from that(2) have "Option.bind (imagePartFromResponse r) part_inlineData = None"
      using image_part_found[of r] by auto
    with that(1) show ?thesis
      by (simp add: blocked_def handleImageEditApiResponse_def Let_def)
  qed
  have iff: "(\<exists>uri. handleImageEditApiResponse r ctx = Inr uri)
        \<longleftrightarrow> \<not> blocked r \<and> first_candidate_has_image r"
  proof
    assume "\<exists>uri. handleImageEditApiResponse r ctx = Inr uri"
    then obtain uri where u: "handleImageEditApiResponse r ctx = Inr uri" ..
    have nb: "\<not> blocked r" using u b by auto
    have "first_candidate_has_image r"
    proof (rule ccontr)
      assume "\<not> first_candidate_has_image r"
      from n[OF nb this] u show False by (simp split: if_splits)
    qed
    with nb show "\<not> blocked r \<and> first_candidate_has_image r" ..
  next
    assume "\<not> blocked r \<and> first_candidate_has_image r"
    then show "\<exists>uri. handleImageEditApiResponse r ctx = Inr uri" using i by blast
  qed
  from b i n iff show ?thesis by blast
qed

text \<open>A response whose first candidate carries a text part and then a PNG.\<close>

theorem handleImageEditApiResponse_outcomes_witness:
  "\<not> blocked image_response \<and> first_candidate_has_image image_response
   \<and> handleImageEditApiResponse image_response ''virtual tattoo blending'' = Inr ''data:image/png;base64,QUI=''"
  using handleImageEditApiResponse_outcomes [of image_response "''virtual tattoo blending''"]
  by (simp add: blocked_def first_candidate_has_image_def has_image_part_def image_response_def
      candidate_of_def first_candidate_def text_part_def image_part_def imagePartFromResponse_def)

text \<open>
  The claim as it was stated, for an image part of any candidate, fails on a response
  that is not blocked and has its image in the second candidate: only
  \<open>candidates[0]\<close> is searched, and the function throws.
\<close>

theorem image_in_second_candidate_counterexample:
  "\<not> blocked second_candidate_response \<and> some_candidate_has_image second_candidate_response
   \<and> handleImageEditApiResponse second_candidate_response ''virtual tattoo blending''
       = Inl (Error ''The AI model did not return an image for the virtual tattoo blending. Feedback: \"Here is your image\"'')"
  by (simp add: blocked_def some_candidate_has_image_def has_image_part_def second_candidate_response_def
      candidate_of_def first_candidate_def text_part_def image_part_def imagePartFromResponse_def
      handleImageEditApiResponse_def trim_def is_white_space_def)

subsection \<open>Failures of the hosted API\<close>

text \<open>
  Four service functions catch what the API call rejects with and throw an \<open>Error\<close>
  of their own.
\<close>

lemma api_failure_wrapped:
  assumes "models_generateImages ai = (\<lambda>request. Inl e)"
    and "models_generateContent ai = (\<lambda>request. Inl e)"
    and "chats_sendMessage ai = (\<lambda>request. Inl e)"
  shows "generateTattooDesign ai concept stylePrompt =
           Inl (Error (if instanceof_Error e
                       then ''Failed to generate tattoo designs. '' @ interpolate (message e)
                       else ''An unknown error occurred while generating tattoo designs.''))"
    and "searchReferenceImages ai concept =
           Inl (Error (''Failed to find reference images. ''
                       @ (if instanceof_Error e then interpolate (message e) else '''')))"
    and "readable img \<Longrightarrow> findArtists ai parse location img =
           Inl (Error (''Failed to find artists. ''
                       @ (if instanceof_Error e then interpolate (message e) else '''')))"
    and "generateArtistResponse ai history a userMessage model =
           Inl (Error ''Failed to get a response from the artist AI.'')"
  using assms
  by (simp_all add: generateTattooDesign_def searchReferenceImages_def findArtists_def
      generateArtistResponse_def readable_def Let_def split: option.splits sum.splits)

text \<open>
  Claim C1 at its failing input. \<open>describeImageStyle\<close>, \<open>blendVirtualTattoo\<close> and
  \<open>generateTattooStencil\<close> have no \<open>try\<close>: when the file was read and the API call
  rejects with \<open>e\<close>, each of them rejects with \<open>e\<close> itself, not with an
  \<open>Error\<close> of its own.
\<close>

theorem api_failure_escapes:
  "models_generateContent ai = (\<lambda>request. Inl e) \<and> fileToPart file = Inr p \<longrightarrow>
     describeImageStyle ai file = Inl e
   \<and> blendVirtualTattoo ai file = Inl e
   \<and> generateTattooStencil ai file = Inl e"
  by (simp add: describeImageStyle_def blendVirtualTattoo_def generateTattooStencil_def)

text \<open>The network is down and the API call rejects with the \<open>TypeError\<close> of \<open>fetch\<close>; all three pass it on.\<close>

theorem api_failure_escapes_witness:
  "describeImageStyle (failing_api (TypeError ''Failed to fetch'')) (Inr sample_image) = Inl (TypeError ''Failed to fetch'')
   \<and> blendVirtualTattoo (failing_api (TypeError ''Failed to fetch'')) (Inr sample_image) = Inl (TypeError ''Failed to fetch'')
   \<and> generateTattooStencil (failing_api (TypeError ''Failed to fetch'')) (Inr sample_image) = Inl (TypeError ''Failed to fetch'')"
  using api_failure_escapes [of "failing_api (TypeError ''Failed to fetch'')" "TypeError ''Failed to fetch''" "Inr sample_image"
      "\<lparr>mimeType = Some ''image/png'', data = Some ''QUI=''\<rparr>"]
  by (simp add: failing_api_def sample_image_def fileToPart_def parse_data_url_def)

subsection \<open>The artist search\<close>

lemma strip_fences_fenced: "strip_fences (''```json'' @ body @ ''```'') = body"
  by (simp add: strip_fences_def)

lemma findArtists_answer:
  assumes "models_generateContent ai = (\<lambda>request. Inr response)"
    and "response_text response = Some raw"
    and "readable img"
  shows "findArtists ai parse location img =
           (case parse (trim (strip_fences (trim raw))) of
              None \<Rightarrow> Inl (Error ''Failed to find artists. The AI returned a response that could not be understood. Please try a different search.'')
            | Some parsed \<Rightarrow> Inr \<lparr>artists = parsed, sources = groundingSources response\<rparr>)"
  using assms
  by (simp add: findArtists_def readable_def Let_def split: option.splits sum.splits)

text \<open>
  Claim C5. The fences are stripped: \<open>```json\<close> in front of a body and \<open>```\<close>
  behind it leave the body. When the API answers with a text \<open>raw\<close> (and the optional
  image could be read), \<open>findArtists\<close> applies \<open>JSON.parse\<close> to the trimmed, stripped
  and trimmed text; if that throws, \<open>findArtists\<close> throws an \<open>Error\<close> whose message
  says that the AI returned a response that could not be understood; if it returns a
  value, that value, whatever it is, is the \<open>artists\<close> field of the result.
\<close>

theorem findArtists_best_effort_parse:
  "strip_fences (''```json'' @ body @ ''```'') = body
   \<and> (models_generateContent ai = (\<lambda>request. Inr response) \<and> response_text response = Some raw
        \<and> readable img \<longrightarrow>
        (parse (trim (strip_fences (trim raw))) = None \<longrightarrow>
           findArtists ai parse location img =
             Inl (Error ''Failed to find artists. The AI returned a response that could not be understood. Please try a different search.''))
      \<and> (\<forall>parsed. parse (trim (strip_fences (trim raw))) = Some parsed \<longrightarrow>
           findArtists ai parse location img =
             Inr \<lparr>artists = parsed, sources = groundingSources response\<rparr>))"
proof (intro conjI impI allI)
  show "strip_fences (''```json'' @ body @ ''```'') = body" by (rule strip_fences_fenced)
next
  assume h: "models_generateContent ai = (\<lambda>request. Inr response) \<and> response_text response = Some raw
        \<and> readable img"
    and p: "parse (trim (strip_fences (trim raw))) = None"
  from h have "findArtists ai parse location img =
           (case parse (trim (strip_fences (trim raw))) of
              None \<Rightarrow> Inl (Error ''Failed to find artists. The AI returned a response that could not be understood. Please try a different search.'')
            | Some parsed \<Rightarrow> Inr \<lparr>artists = parsed, sources = groundingSources response\<rparr>)"
    by (intro findArtists_answer) simp_all
  with p show "findArtists ai parse location img =
             Inl (Error ''Failed to find artists. The AI returned a response that could not be understood. Please try a different search.'')"
    by simp
next
  fix parsed
  assume h: "models_generateContent ai = (\<lambda>request. Inr response) \<and> response_text response = Some raw
        \<and> readable img"
    and p: "parse (trim (strip_fences (trim raw))) = Some parsed"
  from h have "findArtists ai parse location img =
           (case parse (trim (strip_fences (trim raw))) of
              None \<Rightarrow> Inl (Error ''Failed to find artists. The AI returned a response that could not be understood. Please try a different search.'')
            | Some parsed \<Rightarrow> Inr \<lparr>artists = parsed, sources = groundingSources response\<rparr>)"
    by (intro findArtists_answer) simp_all
  with p show "findArtists ai parse location img = Inr \<lparr>artists = parsed, sources = groundingSources response\<rparr>"
    by simp
qed

text \<open>
  A fenced answer that parses to the number 42, which comes back as the artists; and an
  answer in prose, which does not parse.
\<close>

theorem findArtists_best_effort_parse_witness:
  "findArtists (answering_api \<lparr>generatedImages = None\<rparr> grounded_response) sample_parse ''Austin'' None
     = Inr \<lparr>artists = 42, sources = groundingSources grounded_response\<rparr>
   \<and> findArtists (answering_api \<lparr>generatedImages = None\<rparr> image_response) sample_parse ''Austin'' None
     = Inl (Error ''Failed to find artists. The AI returned a response that could not be understood. Please try a different search.'')"
  using findArtists_best_effort_parse [of "[]" "answering_api \<lparr>generatedImages = None\<rparr> grounded_response"
          grounded_response "''```json\<newline>42\<newline>```''" None sample_parse "''Austin''"]
        findArtists_best_effort_parse [of "[]" "answering_api \<lparr>generatedImages = None\<rparr> image_response"
          image_response "''Here is your image''" None sample_parse "''Austin''"]
  by (simp add: answering_api_def grounded_response_def image_response_def readable_def sample_parse_def
      strip_fences_def trim_def is_white_space_def)

lemma push_unless_found_eq:
  "push_unless_found acc w = (if web_uri w \<in> web_uri ` set acc then acc else acc @ [w])"
proof -
  have "(List.find (\<lambda>item. web_uri item = web_uri w) acc = None) = (web_uri w \<notin> web_uri ` set acc)"
    by (auto simp: find_None_iff intro: rev_image_eqI)
  then show ?thesis by (simp add: push_unless_found_def)
qed

lemma foldl_push_unseen:
  "foldl push_unless_found acc ws = acc @ unseen (web_uri ` set acc) ws"
  by (induction ws arbitrary: acc) (simp_all add: push_unless_found_eq)

lemma unseen_subseq: "subseq (unseen seen ws) ws"
  by (induction ws arbitrary: seen) auto

lemma unseen_subset: "set (unseen seen ws) \<subseteq> set ws"
  by (induction ws arbitrary: seen) auto

lemma unseen_uris: "web_uri ` set (unseen seen ws) = web_uri ` set ws - seen"
  by (induction ws arbitrary: seen) auto

lemma unseen_distinct: "distinct (map web_uri (unseen seen ws))"
  by (induction ws arbitrary: seen) (auto simp: unseen_uris)

lemma unseen_first:
  "w \<in> set (unseen seen ws) \<Longrightarrow> List.find (\<lambda>v. web_uri v = web_uri w) ws = Some w"
proof (induction ws arbitrary: seen)
  case Nil
  then show ?case by simp
next
  case (Cons x xs)
  show ?case
  proof (cases "web_uri x \<in> seen")
    case True
    with Cons.prems have w: "w \<in> set (unseen seen xs)" by simp
    then have "web_uri w \<in> web_uri ` set (unseen seen xs)" by blast
    then have "web_uri w \<notin> seen" by (simp add: unseen_uris)
    with True have "web_uri x \<noteq> web_uri w" by auto
    with Cons.IH[OF w] show ?thesis by simp
  next
    case False
    with Cons.prems have "w = x \<or> w \<in> set (unseen (insert (web_uri x) seen) xs)" by simp
    then show ?thesis
    proof
      assume "w = x" then show ?thesis by simp
    next
      assume w: "w \<in> set (unseen (insert (web_uri x) seen) xs)"
      then have "web_uri w \<in> web_uri ` set (unseen (insert (web_uri x) seen) xs)" by blast
      then have "web_uri x \<noteq> web_uri w" by (auto simp: unseen_uris)
      with Cons.IH[OF w] show ?thesis by simp
    qed
  qed
qed

lemma groundingWebs_valid:
  "w \<in> set (groundingWebs response) \<Longrightarrow> truthy (web_uri w) \<and> truthy (web_title w)"
  by (auto simp: groundingWebs_def Let_def split: option.splits)

lemma groundingSources_unseen: "groundingSources response = unseen {} (groundingWebs response)"
  by (simp add: groundingSources_def foldl_push_unseen)

text \<open>
  Claim C10. When the API answers and \<open>findArtists\<close> returns a result, every source
  has a uri and a title; no two sources have the same uri; the sources are a
  subsequence of the web entries (with uri and title) of the grounding chunks, in their
  order; every uri of those entries is the uri of a source; and each source is the first
  of those entries with its uri.
\<close>

theorem findArtists_sources:
  "models_generateContent ai = (\<lambda>request. Inr response) \<and> findArtists ai parse location img = Inr result \<longrightarrow>
     (\<forall>w \<in> set (sources result). truthy (web_uri w) \<and> truthy (web_title w))
   \<and> distinct (map web_uri (sources result))
   \<and> subseq (sources result) (groundingWebs response)
   \<and> web_uri ` set (sources result) = web_uri ` set (groundingWebs response)
   \<and> (\<forall>w \<in> set (sources result). List.find (\<lambda>v. web_uri v = web_uri w) (groundingWebs response) = Some w)"
proof (intro impI)
  assume h: "models_generateContent ai = (\<lambda>request. Inr response) \<and> findArtists ai parse location img = Inr result"
  then have "sources result = groundingSources response"
    by (auto simp: findArtists_def Let_def split: option.splits sum.splits)
  then have s: "sources result = unseen {} (groundingWebs response)"
    by (simp add: groundingSources_unseen)
  have sub: "set (sources result) \<subseteq> set (groundingWebs response)"
    unfolding s by (rule unseen_subset)
  show "(\<forall>w \<in> set (sources result). truthy (web_uri w) \<and> truthy (web_title w))
   \<and> distinct (map web_uri (sources result))
   \<and> subseq (sources result) (groundingWebs response)
   \<and> web_uri ` set (sources result) = web_uri ` set (groundingWebs response)
   \<and> (\<forall>w \<in> set (sources result). List.find (\<lambda>v. web_uri v = web_uri w) (groundingWebs response) = Some w)"
  proof (intro conjI ballI)
    fix w assume "w \<in> set (sources result)"
    with sub have "w \<in> set (groundingWebs response)" by blast
    then have v: "truthy (web_uri w) \<and> truthy (web_title w)" by (rule groundingWebs_valid)
    from v show "truthy (web_uri w)" ..
    from v show "truthy (web_title w)" ..
  next
    show "distinct (map web_uri (sources result))" unfolding s by (rule unseen_distinct)
  next
    show "subseq (sources result) (groundingWebs response)" unfolding s by (rule unseen_subseq)
  next
    show "web_uri ` set (sources result) = web_uri ` set (groundingWebs response)"
      unfolding s by (simp add: unseen_uris)
  next
    fix w assume "w \<in> set (sources result)"
    then show "List.find (\<lambda>v. web_uri v = web_uri w) (groundingWebs response) = Some w"
      unfolding s by (rule unseen_first)
  qed
qed

text \<open>
  Five grounding chunks: page A, a chunk without a web entry, page B, page A again, and
  an entry without a title. The sources are A and B.
\<close>

theorem findArtists_sources_witness:
  "findArtists (answering_api \<lparr>generatedImages = None\<rparr> grounded_response) sample_parse ''Austin'' None
     = Inr \<lparr>artists = 42,
            sources = [\<lparr>web_uri = Some ''https://a.example'', web_title = Some ''A''\<rparr>,
                       \<lparr>web_uri = Some ''https://b.example'', web_title = Some ''B''\<rparr>]\<rparr>
   \<and> groundingWebs grounded_response
     = [\<lparr>web_uri = Some ''https://a.example'', web_title = Some ''A''\<rparr>,
        \<lparr>web_uri = Some ''https://b.example'', web_title = Some ''B''\<rparr>,
        \<lparr>web_uri = Some ''https://a.example'', web_title = Some ''A again''\<rparr>]
   \<and> distinct [Some ''https://a.example'', Some ''https://b.example'']"
  using findArtists_sources [of "answering_api \<lparr>generatedImages = None\<rparr> grounded_response"
      grounded_response sample_parse "''Austin''" None
      "\<lparr>artists = 42,
        sources = [\<lparr>web_uri = Some ''https://a.example'', web_title = Some ''A''\<rparr>,
                   \<lparr>web_uri = Some ''https://b.example'', web_title = Some ''B''\<rparr>]\<rparr>"]
  by (simp add: findArtists_def answering_api_def grounded_response_def sample_parse_def
      strip_fences_def trim_def is_white_space_def groundingSources_def groundingWebs_def
      first_candidate_def web_of_def push_unless_found_def Let_def)

subsection \<open>The artist chat\<close>

text \<open>
  Claim C8. For any two conversation histories, and the same artist, user message and
  model, \<open>generateArtistResponse\<close> sends the same request, whose chat history is
  empty, and so returns (or throws) the same.
\<close>

theorem generateArtistResponse_ignores_history:
  "artistRequest h1 a userMessage model = artistRequest h2 a userMessage model
   \<and> chat_history (artistRequest h1 a userMessage model) = []
   \<and> generateArtistResponse ai h1 a userMessage model = generateArtistResponse ai h2 a userMessage model"
  by (simp add: artistRequest_def generateArtistResponse_def Let_def)

text \<open>A conversation of two messages and the empty conversation get the same reply.\<close>

theorem generateArtistResponse_ignores_history_witness:
  "generateArtistResponse (answering_api \<lparr>generatedImages = None\<rparr> image_response)
       [\<lparr>sender = ''user'', msg_text = ''I want a dragon'', timestamp = ''t1''\<rparr>,
        \<lparr>sender = ''artist'', msg_text = ''Which size?'', timestamp = ''t2''\<rparr>]
       unassigned ''Palm sized'' ''gemini-2.5-flash''
     = generateArtistResponse (answering_api \<lparr>generatedImages = None\<rparr> image_response)
         [] unassigned ''Palm sized'' ''gemini-2.5-flash''"
  using generateArtistResponse_ignores_history [of
      "[\<lparr>sender = ''user'', msg_text = ''I want a dragon'', timestamp = ''t1''\<rparr>,
        \<lparr>sender = ''artist'', msg_text = ''Which size?'', timestamp = ''t2''\<rparr>]"
      unassigned "''Palm sized''" "''gemini-2.5-flash''" "[]"
      "answering_api \<lparr>generatedImages = None\<rparr> image_response"]
  by simp

section \<open>The application: verified properties\<close>

lemma projects_updateProject:
  "projects (updateProject br pid updates s)
     = map (\<lambda>p. if project_id p = pid then spread p updates else p) (projects s)"
  by (simp add: updateProject_def Let_def split: sum.splits)

lemma projects_handleSaveProject:
  "projects (snd (handleSaveProject br now isoString a design s))
     = projects s @
       [\<lparr>project_id = ''proj_'' @ number_to_string now, designImage = design, stencilImage = None,
         project_artist = a, savedAt = isoString, conversation = [],
         project_contract = \<lparr>status = Pending, price = [], appointmentDate = []\<rparr>\<rparr>]"
  by (simp add: handleSaveProject_def Let_def split: sum.splits)

lemma handleSaveProject_frame:
  "appStep (snd (handleSaveProject br now isoString a design s)) = appStep s"
  "finalImage (snd (handleSaveProject br now isoString a design s)) = finalImage s"
  "selectedTattoo (snd (handleSaveProject br now isoString a design s)) = selectedTattoo s"
  "viewingProject (snd (handleSaveProject br now isoString a design s)) = viewingProject s"
  by (simp_all add: handleSaveProject_def Let_def split: sum.splits)

lemma projects_deleteProject:
  "projects (snd (deleteProject br s))
     = (case viewingProject s of None \<Rightarrow> projects s
        | Some viewing \<Rightarrow> filter (\<lambda>p. project_id p \<noteq> project_id viewing) (projects s))"
  by (simp add: deleteProject_def Let_def split: sum.splits option.splits)

lemma handleSaveProject_storage:
  "localStorage (snd (handleSaveProject br now isoString a design s))
     = (if setItem_accepts br projects_key (JSON_stringify br (projects (snd (handleSaveProject br now isoString a design s))))
        then (localStorage s)(projects_key \<mapsto> JSON_stringify br (projects (snd (handleSaveProject br now isoString a design s))))
        else localStorage s)"
  by (simp add: handleSaveProject_def Let_def setItem_def)

lemma updateProject_storage:
  "localStorage (updateProject br pid updates s)
     = (if setItem_accepts br projects_key (JSON_stringify br (projects (updateProject br pid updates s)))
        then (localStorage s)(projects_key \<mapsto> JSON_stringify br (projects (updateProject br pid updates s)))
        else localStorage s)"
  by (simp add: updateProject_def Let_def setItem_def)

lemma deleteProject_storage:
  "localStorage (snd (deleteProject br s))
     = (if viewingProject s \<noteq> None
           \<and> setItem_accepts br projects_key (JSON_stringify br (projects (snd (deleteProject br s))))
        then (localStorage s)(projects_key \<mapsto> JSON_stringify br (projects (snd (deleteProject br s))))
        else localStorage s)"
  by (simp add: deleteProject_def Let_def setItem_def split: option.splits)

lemma handleFindArtists_storage:
  "localStorage (snd (handleFindArtists br fromStartScreen s)) = localStorage s"
  by (simp add: handleFindArtists_def Let_def split: sum.splits)

lemma number_to_string_7: "number_to_string 7 = ''7''"
  by code_simp

lemma handle_SendConsultation_snd:
  "handle br (SendConsultation now isoString) s =
     (case bookingArtist s of
        None \<Rightarrow> s
      | Some a \<Rightarrow>
          (if fst (handleSaveProject br now isoString a (js_or (finalImage s) (selectedTattoo s)) s) = None
           then (snd (handleSaveProject br now isoString a (js_or (finalImage s) (selectedTattoo s)) s))\<lparr>bookingArtist := None\<rparr>
           else snd (handleSaveProject br now isoString a (js_or (finalImage s) (selectedTattoo s)) s)))"
  by (auto split: option.splits prod.splits)

lemma appStep_updateProject: "appStep (updateProject br pid updates s) = appStep s"
  by (simp add: updateProject_def Let_def split: sum.splits)

lemma appStep_deleteProject: "appStep (snd (deleteProject br s)) = appStep s"
  by (simp add: deleteProject_def Let_def split: sum.splits option.splits)

lemma appStep_handleFindArtists:
  "appStep (snd (handleFindArtists br fromStartScreen s))
     = (if fromStartScreen then FIND_ARTIST else appStep s)"
  by (simp add: handleFindArtists_def Let_def split: sum.splits)

lemma handleFindArtists_True:
  "snd (handleFindArtists br True s) = s\<lparr>searchedForArtists := False, appStep := FIND_ARTIST\<rparr>"
  by (simp add: handleFindArtists_def)

lemma map_project_id_spread:
  "upd_id updates = None \<Longrightarrow>
   map project_id (map (\<lambda>p. if project_id p = pid then spread p updates else p) ps) = map project_id ps"
  by (induction ps) (auto simp: spread_def)

lemma number_to_string_8: "number_to_string 8 = ''8''"
  by code_simp

subsection \<open>Saving a project\<close>

text \<open>
  Claim C3. Whatever the projects, the artist and the design, \<open>handleSaveProject\<close>
  leaves the list of projects as it was with one project appended: the one with the
  given design and artist, the id and date of the clock readings, no stencil, an empty
  conversation and the contract \<open>{ status: 'Pending', price: '', appointmentDate: '' }\<close>.
  The gallery count grows by one, and the header badge shows it.
\<close>

theorem handleSaveProject_appends_one:
  "projects (snd (handleSaveProject br now isoString a design s))
     = projects s @
       [\<lparr>project_id = ''proj_'' @ number_to_string now, designImage = design, stencilImage = None,
         project_artist = a, savedAt = isoString, conversation = [],
         project_contract = \<lparr>status = Pending, price = [], appointmentDate = []\<rparr>\<rparr>]
   \<and> galleryItemCount (snd (handleSaveProject br now isoString a design s)) = galleryItemCount s + 1
   \<and> badge (snd (handleSaveProject br now isoString a design s)) = Some (galleryItemCount s + 1)"
  by (simp add: handleSaveProject_def Let_def galleryItemCount_def badge_def split: sum.splits)

text \<open>The first save, into an empty gallery.\<close>

theorem handleSaveProject_appends_one_witness:
  "projects (snd (handleSaveProject (sample_browser 100) 7 ''2026-01-01T00:00:00.000Z'' unassigned
              (Some sample_image) (initial_state Map.empty)))
     = [\<lparr>project_id = ''proj_7'', designImage = Some sample_image, stencilImage = None,
         project_artist = unassigned, savedAt = ''2026-01-01T00:00:00.000Z'', conversation = [],
         project_contract = \<lparr>status = Pending, price = [], appointmentDate = []\<rparr>\<rparr>]
   \<and> badge (snd (handleSaveProject (sample_browser 100) 7 ''2026-01-01T00:00:00.000Z'' unassigned
              (Some sample_image) (initial_state Map.empty))) = Some 1"
  using handleSaveProject_appends_one [of "sample_browser 100" 7 "''2026-01-01T00:00:00.000Z''" unassigned
      "Some sample_image" "initial_state Map.empty"]
  by (simp add: number_to_string_7 initial_state_def galleryItemCount_def)

subsection \<open>Local storage\<close>

lemma handle_other_keys:
  assumes "k \<noteq> projects_key"
  shows "localStorage (handle br e s) k = localStorage s k"
proof (cases e)
  case (SendConsultation now isoString)
  show ?thesis
    unfolding SendConsultation handle_SendConsultation_snd using assms
    by (simp add: handleSaveProject_storage split: option.splits)
qed (use assms in \<open>auto simp: handleSaveProject_storage updateProject_storage deleteProject_storage
      handleFindArtists_storage handleReset_def handleSelectTattoo_def split: option.splits\<close>)

text \<open>
  Claim C2, as the code has it. After \<open>handleSaveProject\<close>, after \<open>updateProject\<close>
  and after the deletion of the viewed project, if \<open>localStorage.setItem\<close> accepted the
  write, the entry under \<open>inkgenius_projects\<close> is \<open>JSON.stringify\<close> of the updated
  projects. If \<open>setItem\<close> threw instead, the local storage is what it was before the
  operation, every entry of it; \<open>updateProject\<close> has updated the projects in memory
  all the same. And no event of the application changes the entry of any other key.
\<close>

theorem storage_follows_projects:
  "(setItem_accepts br projects_key (JSON_stringify br (projects (snd (handleSaveProject br now isoString a design s))))
      \<longrightarrow> localStorage (snd (handleSaveProject br now isoString a design s)) projects_key
            = Some (JSON_stringify br (projects (snd (handleSaveProject br now isoString a design s)))))
   \<and> (setItem_accepts br projects_key (JSON_stringify br (projects (updateProject br pid updates s)))
      \<longrightarrow> localStorage (updateProject br pid updates s) projects_key
            = Some (JSON_stringify br (projects (updateProject br pid updates s))))
   \<and> (viewingProject s \<noteq> None
        \<and> setItem_accepts br projects_key (JSON_stringify br (projects (snd (deleteProject br s))))
      \<longrightarrow> localStorage (snd (deleteProject br s)) projects_key
            = Some (JSON_stringify br (projects (snd (deleteProject br s)))))
   \<and> (k \<noteq> projects_key \<longrightarrow> localStorage (handle br e s) k = localStorage s k)
   \<and> (\<not> setItem_accepts br projects_key (JSON_stringify br (projects (snd (handleSaveProject br now isoString a design s))))
      \<longrightarrow> localStorage (snd (handleSaveProject br now isoString a design s)) = localStorage s)
   \<and> (\<not> setItem_accepts br projects_key (JSON_stringify br (projects (updateProject br pid updates s)))
      \<longrightarrow> localStorage (updateProject br pid updates s) = localStorage s
          \<and> projects (updateProject br pid updates s)
              = map (\<lambda>p. if project_id p = pid then spread p updates else p) (projects s))
   \<and> (\<not> setItem_accepts br projects_key (JSON_stringify br (projects (snd (deleteProject br s))))
      \<longrightarrow> localStorage (snd (deleteProject br s)) = localStorage s)"
proof (intro conjI impI)
  assume "setItem_accepts br projects_key (JSON_stringify br (projects (snd (handleSaveProject br now isoString a design s))))"
  then show "localStorage (snd (handleSaveProject br now isoString a design s)) projects_key
            = Some (JSON_stringify br (projects (snd (handleSaveProject br now isoString a design s))))"
    by (subst handleSaveProject_storage) simp
next
  assume "setItem_accepts br projects_key (JSON_stringify br (projects (updateProject br pid updates s)))"
  then show "localStorage (updateProject br pid updates s) projects_key
            = Some (JSON_stringify br (projects (updateProject br pid updates s)))"
    by (subst updateProject_storage) simp
next
  assume "viewingProject s \<noteq> None
        \<and> setItem_accepts br projects_key (JSON_stringify br (projects (snd (deleteProject br s))))"
  then show "localStorage (snd (deleteProject br s)) projects_key
            = Some (JSON_stringify br (projects (snd (deleteProject br s))))"
    by (subst deleteProject_storage) simp
next
  assume "k \<noteq> projects_key"
  then show "localStorage (handle br e s) k = localStorage s k"
    by (rule handle_other_keys)
next
  assume "\<not> setItem_accepts br projects_key (JSON_stringify br (projects (snd (handleSaveProject br now isoString a design s))))"
  then show "localStorage (snd (handleSaveProject br now isoString a design s)) = localStorage s"
    by (subst handleSaveProject_storage) simp
next
  assume "\<not> setItem_accepts br projects_key (JSON_stringify br (projects (updateProject br pid updates s)))"
  then show "localStorage (updateProject br pid updates s) = localStorage s"
    by (subst updateProject_storage) simp
next
  show "projects (updateProject br pid updates s)
              = map (\<lambda>p. if project_id p = pid then spread p updates else p) (projects s)"
    by (rule projects_updateProject)
next
  assume "\<not> setItem_accepts br projects_key (JSON_stringify br (projects (snd (deleteProject br s))))"
  then show "localStorage (snd (deleteProject br s)) = localStorage s"
    by (subst deleteProject_storage) simp
qed

text \<open>
  The sample project is saved, stored and opened. With room in the storage: a second
  save, a message added to the viewed project, and its deletion; another key stays
  absent. With room for one character only, each of the three writes is rejected and
  the storage stays as it was, while the message is in the projects in memory.
\<close>

theorem storage_follows_projects_witness:
  "localStorage (snd (handleSaveProject (sample_browser 100) 8 ''2026-01-02T00:00:00.000Z'' unassigned
       (Some sample_image) viewing_state)) projects_key = Some ''[proj_7:,proj_8:]''
   \<and> localStorage (updateProject (sample_browser 100) ''proj_7''
         (no_updates\<lparr>upd_conversation := Some [\<lparr>sender = ''user'', msg_text = ''hello'', timestamp = ''t''\<rparr>]\<rparr>)
         viewing_state) projects_key = Some ''[proj_7:hello]''
   \<and> localStorage (snd (deleteProject (sample_browser 100) viewing_state)) projects_key = Some ''[]''
   \<and> localStorage (handle (sample_browser 100) DeleteProject viewing_state) ''another key'' = None
   \<and> localStorage viewing_state projects_key = Some ''[proj_7:]''
   \<and> localStorage (snd (handleSaveProject (sample_browser 1) 8 ''2026-01-02T00:00:00.000Z'' unassigned
       (Some sample_image) viewing_state)) = localStorage viewing_state
   \<and> localStorage (updateProject (sample_browser 1) ''proj_7''
         (no_updates\<lparr>upd_conversation := Some [\<lparr>sender = ''user'', msg_text = ''hello'', timestamp = ''t''\<rparr>]\<rparr>)
         viewing_state) = localStorage viewing_state
   \<and> map conversation (projects (updateProject (sample_browser 1) ''proj_7''
         (no_updates\<lparr>upd_conversation := Some [\<lparr>sender = ''user'', msg_text = ''hello'', timestamp = ''t''\<rparr>]\<rparr>)
         viewing_state)) = [[\<lparr>sender = ''user'', msg_text = ''hello'', timestamp = ''t''\<rparr>]]
   \<and> localStorage (snd (deleteProject (sample_browser 1) viewing_state)) = localStorage viewing_state"
  using storage_follows_projects [of "sample_browser 100" 8 "''2026-01-02T00:00:00.000Z''" unassigned
      "Some sample_image" viewing_state "''proj_7''"
      "no_updates\<lparr>upd_conversation := Some [\<lparr>sender = ''user'', msg_text = ''hello'', timestamp = ''t''\<rparr>]\<rparr>"
      "''another key''" DeleteProject]
    storage_follows_projects [of "sample_browser 1" 8 "''2026-01-02T00:00:00.000Z''" unassigned
      "Some sample_image" viewing_state "''proj_7''"
      "no_updates\<lparr>upd_conversation := Some [\<lparr>sender = ''user'', msg_text = ''hello'', timestamp = ''t''\<rparr>]\<rparr>"
      "''another key''" DeleteProject]
  by (simp add: projects_handleSaveProject projects_updateProject projects_deleteProject
      number_to_string_8 viewing_state_def initial_state_def sample_browser_def sample_stringify_def
      sample_project_def no_updates_def spread_def projects_key_def)

text \<open>
  The claim as it was stated, for every operation, fails when the browser rejects a
  write. With room for ten characters, the saved project is stored; the message sent
  next makes the text longer than that, \<open>setItem\<close> throws, \<open>updateProject\<close> catches
  it, and the storage keeps the old text while the projects in memory have the message.
\<close>

theorem rejected_write_counterexample:
  "localStorage (run (sample_browser 10)
       [BlendSucceeded sample_image, SaveDesign 7 ''2026-01-01T00:00:00.000Z'', ShowGallery,
        ViewProject sample_project, SendMessage ''hello'' ''2026-01-01T00:01:00.000Z'']
       (initial_state Map.empty)) projects_key = Some ''[proj_7:]''
   \<and> JSON_stringify (sample_browser 10) (projects (run (sample_browser 10)
       [BlendSucceeded sample_image, SaveDesign 7 ''2026-01-01T00:00:00.000Z'', ShowGallery,
        ViewProject sample_project, SendMessage ''hello'' ''2026-01-01T00:01:00.000Z'']
       (initial_state Map.empty))) = ''[proj_7:hello]''"
  by (simp add: handleSaveProject_def updateProject_def setItem_def Let_def number_to_string_7
      initial_state_def sample_browser_def sample_stringify_def sample_image_def unassigned_def
      sample_project_def no_updates_def spread_def projects_key_def trim_def is_white_space_def)

subsection \<open>Project ids\<close>

lemma projects_handleFindArtists:
  "projects (snd (handleFindArtists br fromStartScreen s)) = projects s"
  by (simp add: handleFindArtists_def Let_def split: sum.splits)

lemma ids_updateProject:
  "upd_id updates = None \<Longrightarrow>
   map project_id (projects (updateProject br pid updates s)) = map project_id (projects s)"
  by (simp only: projects_updateProject map_project_id_spread)

lemma handle_ids_distinct:
  assumes d: "distinct (map project_id (projects s))"
    and safe: "id_safe br e s"
  shows "distinct (map project_id (projects (handle br e s)))"
proof (cases e)
  case (SendConsultation now isoString)
  with safe have "''proj_'' @ number_to_string now \<notin> project_id ` set (projects s)"
    by (simp add: new_id_unused_def)
  with d show ?thesis
    unfolding SendConsultation handle_SendConsultation_snd
    by (simp add: projects_handleSaveProject split: option.splits)
next
  case (SaveDesign now isoString)
  with safe have "''proj_'' @ number_to_string now \<notin> project_id ` set (projects s)"
    by (simp add: new_id_unused_def)
  with d show ?thesis
    unfolding SaveDesign by (simp add: projects_handleSaveProject)
next
  case DeleteProject
  with d show ?thesis
    by (simp add: projects_deleteProject distinct_map_filter split: option.splits)
next
  case Mount
  with d safe show ?thesis by (simp split: option.splits)
qed (use d in \<open>auto simp: projects_handleFindArtists ids_updateProject no_updates_def
      handleReset_def handleSelectTattoo_def split: option.splits\<close>)

lemma run_ids_distinct:
  "distinct (map project_id (projects s)) \<Longrightarrow> id_safe_run br es s \<Longrightarrow>
   distinct (map project_id (projects (run br es s)))"
proof (induction es arbitrary: s)
  case Nil
  then show ?case by simp
next
  case (Cons e es)
  from Cons.prems have "distinct (map project_id (projects (handle br e s)))"
    by (simp add: handle_ids_distinct)
  with Cons.prems Cons.IH[of "handle br e s"] show ?case by simp
qed

text \<open>
  Claim C4, as the code has it. When the ids of the projects are pairwise distinct, they
  still are after \<open>handleSaveProject\<close> if the id made from the clock reading is not
  the id of a project in the list, after \<open>updateProject\<close> with updates that have no
  \<open>id\<close> (the application passes a stencil or a conversation only), and after the
  deletion of the viewed project. So in every state that a run of the application
  reaches from its initial state the ids are pairwise distinct, if every save of the run
  reads a clock value whose id is not in the list yet (and the load at mount finds
  projects with distinct ids).
\<close>

theorem project_ids_stay_distinct:
  "(distinct (map project_id (projects s)) \<longrightarrow>
      (new_id_unused now s
         \<longrightarrow> distinct (map project_id (projects (snd (handleSaveProject br now isoString a design s)))))
    \<and> (upd_id updates = None
         \<longrightarrow> distinct (map project_id (projects (updateProject br pid updates s))))
    \<and> distinct (map project_id (projects (snd (deleteProject br s)))))
   \<and> (id_safe_run br es (initial_state st)
        \<longrightarrow> distinct (map project_id (projects (run br es (initial_state st)))))"
proof (intro impI conjI)
  assume d: "distinct (map project_id (projects s))" and fresh: "new_id_unused now s"
  then show "distinct (map project_id (projects (snd (handleSaveProject br now isoString a design s))))"
    by (simp add: projects_handleSaveProject new_id_unused_def)
next
  assume d: "distinct (map project_id (projects s))" and "upd_id updates = None"
  then show "distinct (map project_id (projects (updateProject br pid updates s)))"
    by (simp only: ids_updateProject)
next
  assume d: "distinct (map project_id (projects s))"
  then show "distinct (map project_id (projects (snd (deleteProject br s))))"
    by (simp add: projects_deleteProject distinct_map_filter split: option.splits)
next
  assume "id_safe_run br es (initial_state st)"
  moreover have "distinct (map project_id (projects (initial_state st)))"
    by (simp add: initial_state_def)
  ultimately show "distinct (map project_id (projects (run br es (initial_state st))))"
    by (rule run_ids_distinct[rotated])
qed

text \<open>
  The sample project is in the gallery: a save one millisecond later, an update, a
  deletion. And a run with two saves, one millisecond apart.
\<close>

theorem project_ids_stay_distinct_witness:
  "distinct (map project_id (projects viewing_state))
   \<and> map project_id (projects (snd (handleSaveProject (sample_browser 100) 8 ''2026-01-02T00:00:00.000Z''
         unassigned (Some sample_image) viewing_state))) = [''proj_7'', ''proj_8'']
   \<and> distinct (map project_id (projects (updateProject (sample_browser 100) ''proj_7''
         (no_updates\<lparr>upd_stencilImage := Some (Some sample_image)\<rparr>) viewing_state)))
   \<and> distinct (map project_id (projects (snd (deleteProject (sample_browser 100) viewing_state))))
   \<and> map project_id (projects (run (sample_browser 100)
         [Mount, BlendSucceeded sample_image, SaveDesign 7 ''2026-01-01T00:00:00.000Z'',
          SaveDesign 8 ''2026-01-02T00:00:00.000Z'']
         (initial_state Map.empty))) = [''proj_7'', ''proj_8'']"
  using project_ids_stay_distinct [of viewing_state 8 "sample_browser 100"
      "''2026-01-02T00:00:00.000Z''" unassigned "Some sample_image"
      "no_updates\<lparr>upd_stencilImage := Some (Some sample_image)\<rparr>" "''proj_7''"
      "[Mount, BlendSucceeded sample_image, SaveDesign 7 ''2026-01-01T00:00:00.000Z'',
          SaveDesign 8 ''2026-01-02T00:00:00.000Z'']" Map.empty]
  by (simp add: projects_handleSaveProject handleSaveProject_frame number_to_string_7 number_to_string_8
      new_id_unused_def viewing_state_def initial_state_def sample_project_def no_updates_def
      sample_image_def projects_key_def)

text \<open>
  The claim as it was stated, for every sequence of saves, fails when two saves read the
  same millisecond from the clock: both projects get the id made from it.
\<close>

theorem same_millisecond_ids_counterexample:
  "\<not> distinct (map project_id (projects
       (run (sample_browser 100)
          [BlendSucceeded sample_image,
           SaveDesign 1700000000000 ''2023-11-14T22:13:20.000Z'',
           SaveDesign 1700000000000 ''2023-11-14T22:13:20.000Z'']
          (initial_state Map.empty))))"
  by (simp add: projects_handleSaveProject handleSaveProject_frame sample_image_def initial_state_def)

subsection \<open>The steps\<close>

text \<open>
  Claim C7, as the code has it. Whenever an event changes the step, it is one of these:
  \<open>DESIGN\<close> is entered from \<open>START\<close> by starting to design; \<open>TRY_ON\<close> is entered
  from \<open>DESIGN\<close> by choosing one of the generated designs, which becomes the selected
  tattoo; \<open>DONE\<close> is entered by a successful blend, which sets the final image;
  \<open>FIND_ARTIST\<close> is entered from \<open>DONE\<close> (with a final image), or from \<open>START\<close>
  directly, with no selected tattoo and no final image; \<open>GALLERY\<close> is entered by the
  header's gallery button and \<open>START\<close> by its reset, from any step.
\<close>

theorem step_changes:
  "appStep (handle br e s) \<noteq> appStep s \<longrightarrow>
     (appStep (handle br e s) = DESIGN \<and> appStep s = START \<and> e = StartDesigning)
   \<or> (appStep (handle br e s) = TRY_ON \<and> appStep s = DESIGN
        \<and> (\<exists>tattoo. e = SelectTattoo tattoo \<and> tattoo \<in> set (generatedTattoos s)
                     \<and> selectedTattoo (handle br e s) = Some tattoo))
   \<or> (appStep (handle br e s) = DONE
        \<and> (\<exists>blended. e = BlendSucceeded blended \<and> finalImage (handle br e s) = Some blended))
   \<or> (appStep (handle br e s) = FIND_ARTIST \<and> appStep s = DONE \<and> e = FindArtistFromDone
        \<and> truthy (finalImage s))
   \<or> (appStep (handle br e s) = FIND_ARTIST \<and> appStep s = START \<and> e = StartFindArtist
        \<and> selectedTattoo (handle br e s) = None \<and> finalImage (handle br e s) = None)
   \<or> (appStep (handle br e s) = GALLERY \<and> e = ShowGallery)
   \<or> (appStep (handle br e s) = START \<and> e = Reset)"
proof (cases e)
  case (SendConsultation now isoString)
  show ?thesis
    unfolding SendConsultation handle_SendConsultation_snd
    by (simp add: handleSaveProject_frame split: option.splits)
qed (auto simp: handleSaveProject_frame appStep_updateProject appStep_deleteProject
      appStep_handleFindArtists handleFindArtists_True handleReset_def handleSelectTattoo_def
      split: option.splits if_splits)

text \<open>
  The whole path, from the start screen to the gallery; and the choice of a design,
  which enters \<open>TRY_ON\<close> with the selected tattoo.
\<close>

theorem step_changes_witness:
  "appStep (run (sample_browser 100)
       [StartDesigning, TattoosGenerated [sample_image], SelectTattoo sample_image,
        TryOnImageLoaded sample_image, BlendSucceeded sample_image, FindArtistFromDone, ShowGallery]
       (initial_state Map.empty)) = GALLERY
   \<and> appStep (run (sample_browser 100) [StartDesigning, TattoosGenerated [sample_image]]
       (initial_state Map.empty)) = DESIGN
   \<and> appStep (handle (sample_browser 100) (SelectTattoo sample_image)
       (run (sample_browser 100) [StartDesigning, TattoosGenerated [sample_image]]
          (initial_state Map.empty))) = TRY_ON
   \<and> selectedTattoo (handle (sample_browser 100) (SelectTattoo sample_image)
       (run (sample_browser 100) [StartDesigning, TattoosGenerated [sample_image]]
          (initial_state Map.empty))) = Some sample_image"
  using step_changes [of "sample_browser 100" "SelectTattoo sample_image"
      "run (sample_browser 100) [StartDesigning, TattoosGenerated [sample_image]] (initial_state Map.empty)"]
  by (simp add: initial_state_def handleSelectTattoo_def appStep_handleFindArtists)

text \<open>
  The claim as it was stated, a linear flow that no transition leaves, fails twice: the
  start screen leads straight to the artist search, and the header leads from the
  description of a design straight to the gallery.
\<close>

theorem step_shortcuts_counterexample:
  "appStep (initial_state Map.empty) = START
   \<and> appStep (handle (sample_browser 100) StartFindArtist (initial_state Map.empty)) = FIND_ARTIST
   \<and> FIND_ARTIST \<notin> set (spec_linear_flow START)
   \<and> appStep (handle (sample_browser 100) StartDesigning (initial_state Map.empty)) = DESIGN
   \<and> appStep (handle (sample_browser 100) ShowGallery
        (handle (sample_browser 100) StartDesigning (initial_state Map.empty))) = GALLERY
   \<and> GALLERY \<notin> set (spec_linear_flow DESIGN)"
  by (simp add: initial_state_def handleFindArtists_def)


end
